theory Spec2Isabelle
  imports Complex_Main "HOL-Library.Word" "HOL-Library.Signed_Division"
begin

section \<open>Secondary skills (src/fheroes2/heroes/skill.cpp)\<close>

subsection \<open>Enumerators and limits\<close>

text \<open>
  Modelled from the spec: the enumerators of \<open>Skill::Level\<close> and \<open>Skill::Secondary\<close>
  and the limits \<open>HEROESMAXSKILL\<close> and \<open>MAXSECONDARYSKILL\<close> are declared in headers
  that are not among the source files. The spec gives the capacity of exactly 8 slots
  (\<open>HEROESMAXSKILL\<close>), the ordered levels None, Basic, Advanced, Expert, and Unknown as
  the kind of the empty slot. The numbering of the kinds is the one the source file
  itself relies on: \<open>Secondary::GetName\<close> indexes a table of 84 names, ordered
  Pathfinding .. Water Magic with three levels each, by
  \<open>(Level() - 1) + (Skill() - 1) * 3\<close>, so Pathfinding is 1, Water Magic is 28 and
  Basic/Advanced/Expert are 1/2/3. \<open>MAXSECONDARYSKILL\<close> is the number of the last kind:
  the table \<open>secskills\<close> has 28 entries.
\<close>

definition Level_NONE :: int where "Level_NONE = 0"
definition Level_BASIC :: int where "Level_BASIC = 1"
definition Level_ADVANCED :: int where "Level_ADVANCED = 2"
definition Level_EXPERT :: int where "Level_EXPERT = 3"

definition UNKNOWN :: int where "UNKNOWN = 0"
definition PATHFINDING :: int where "PATHFINDING = 1"
definition ARCHERY :: int where "ARCHERY = 2"
definition LOGISTICS :: int where "LOGISTICS = 3"
definition SCOUTING :: int where "SCOUTING = 4"
definition DIPLOMACY :: int where "DIPLOMACY = 5"
definition NAVIGATION :: int where "NAVIGATION = 6"
definition LEADERSHIP :: int where "LEADERSHIP = 7"
definition WISDOM :: int where "WISDOM = 8"
definition MYSTICISM :: int where "MYSTICISM = 9"
definition LUCK :: int where "LUCK = 10"
definition BALLISTICS :: int where "BALLISTICS = 11"
definition EAGLEEYE :: int where "EAGLEEYE = 12"
definition NECROMANCY :: int where "NECROMANCY = 13"
definition ESTATES :: int where "ESTATES = 14"
definition OFFENSE :: int where "OFFENSE = 15"
definition AIRMAGIC :: int where "AIRMAGIC = 16"
definition ARMORER :: int where "ARMORER = 17"
definition ARTILLERY :: int where "ARTILLERY = 18"
definition EARTHMAGIC :: int where "EARTHMAGIC = 19"
definition FIREMAGIC :: int where "FIREMAGIC = 20"
definition FIRSTAID :: int where "FIRSTAID = 21"
definition INTELLIGENCE :: int where "INTELLIGENCE = 22"
definition LEARNING :: int where "LEARNING = 23"
definition RESISTANCE :: int where "RESISTANCE = 24"
definition SCHOLAR :: int where "SCHOLAR = 25"
definition SORCERY :: int where "SORCERY = 26"
definition TACTICS :: int where "TACTICS = 27"
definition WATERMAGIC :: int where "WATERMAGIC = 28"

definition HEROESMAXSKILL :: nat where "HEROESMAXSKILL = 8"
definition MAXSECONDARYSKILL :: int where "MAXSECONDARYSKILL = 28"

text \<open>The file-scope table \<open>Skill::secskills\<close>, in its order.\<close>

definition secskills :: "int list" where
  "secskills =
     [PATHFINDING, ARCHERY, LOGISTICS, SCOUTING, DIPLOMACY, NAVIGATION, LEADERSHIP,
      WISDOM, MYSTICISM, LUCK, BALLISTICS, EAGLEEYE, NECROMANCY, ESTATES,
      OFFENSE, AIRMAGIC, ARMORER, ARTILLERY, EARTHMAGIC, FIREMAGIC, FIRSTAID,
      INTELLIGENCE, LEARNING, RESISTANCE, SCHOLAR, SORCERY, TACTICS, WATERMAGIC]"

subsection \<open>Skill::Secondary\<close>

text \<open>
  \<open>class Secondary : public std::pair<int, int>\<close>: \<open>first\<close> is the skill kind
  (\<open>Skill()\<close>), \<open>second\<close> the level (\<open>Level()\<close>). Both are plain ints: nothing in the
  type keeps them in range, only the setters do.
\<close>

datatype Secondary = Secondary (Skill: int) (Level: int)

definition Secondary_default :: Secondary where
  "Secondary_default = Secondary UNKNOWN Level_NONE"

definition Set_sec :: "Secondary \<Rightarrow> Secondary \<Rightarrow> Secondary" where
  "Set_sec this skill = Secondary (Skill skill) (Level skill)"

definition SetSkill :: "Secondary \<Rightarrow> int \<Rightarrow> Secondary" where
  "SetSkill this skill =
     Secondary (if skill \<ge> UNKNOWN \<and> skill \<le> MAXSECONDARYSKILL then skill else UNKNOWN)
               (Level this)"

definition SetLevel :: "Secondary \<Rightarrow> int \<Rightarrow> Secondary" where
  "SetLevel this level =
     Secondary (Skill this)
               (if level \<ge> Level_NONE \<and> level \<le> Level_EXPERT then level else Level_NONE)"

definition NextLevel :: "Secondary \<Rightarrow> Secondary" where
  "NextLevel this =
     (if Level this = Level_NONE then Secondary (Skill this) Level_BASIC
      else if Level this = Level_BASIC then Secondary (Skill this) Level_ADVANCED
      else if Level this = Level_ADVANCED then Secondary (Skill this) Level_EXPERT
      else this)"

text \<open>The two-argument constructor goes through both setters.\<close>

definition Secondary_ctor :: "int \<Rightarrow> int \<Rightarrow> Secondary" where
  "Secondary_ctor skill level = SetLevel (SetSkill Secondary_default skill) level"

definition isSkill :: "Secondary \<Rightarrow> int \<Rightarrow> bool" where
  "isSkill this skill \<longleftrightarrow> skill = Skill this"

definition isValid :: "Secondary \<Rightarrow> bool" where
  "isValid this \<longleftrightarrow> Skill this \<noteq> UNKNOWN \<and> Level this \<noteq> Level_NONE"

subsection \<open>Skill::SecSkills\<close>

text \<open>
  \<open>class SecSkills : std::vector<Secondary>\<close>. \<open>std::find_if\<close> returns the position of
  the first element satisfying the predicate, or \<open>end()\<close> (here \<open>None\<close>).
\<close>

type_synonym SecSkills = "Secondary list"

fun find_if :: "('a \<Rightarrow> bool) \<Rightarrow> 'a list \<Rightarrow> nat option" where
  "find_if P [] = None"
| "find_if P (x # xs) =
     (if P x then Some 0 else (case find_if P xs of None \<Rightarrow> None | Some i \<Rightarrow> Some (Suc i)))"

definition GetLevel :: "SecSkills \<Rightarrow> int \<Rightarrow> int" where
  "GetLevel this skill =
     (case find_if (\<lambda>v. isSkill v skill) this of
        None \<Rightarrow> Level_NONE
      | Some it \<Rightarrow> Level (this ! it))"

definition Count :: "SecSkills \<Rightarrow> nat" where
  "Count this = length (filter isValid this)"

definition GetTotalLevel :: "SecSkills \<Rightarrow> int" where
  "GetTotalLevel this = sum_list (map Level (filter isValid this))"

definition AddSkill :: "SecSkills \<Rightarrow> Secondary \<Rightarrow> SecSkills" where
  "AddSkill this skill =
     (if isValid skill then
        (case find_if (\<lambda>v. isSkill v (Skill skill)) this of
           Some it \<Rightarrow> this[it := SetLevel (this ! it) (Level skill)]
         | None \<Rightarrow>
             (case find_if (\<lambda>v. \<not> isValid v) this of
                Some it \<Rightarrow> this[it := Set_sec (this ! it) skill]
              | None \<Rightarrow>
                  if length this < HEROESMAXSKILL then this @ [skill] else this))
      else this)"

text \<open>\<open>resize(n, v)\<close> on a shorter vector appends copies of \<open>v\<close> up to length \<open>n\<close>.\<close>

definition FillMax :: "SecSkills \<Rightarrow> Secondary \<Rightarrow> SecSkills" where
  "FillMax this skill =
     (if length this < HEROESMAXSKILL
      then this @ replicate (HEROESMAXSKILL - length this) skill
      else this)"

text \<open>
  A program over one \<open>SecSkills\<close> object: a sequence of calls of the two mutators, run
  from the state the default constructor leaves (an empty vector).
\<close>

datatype skill_op = OpAddSkill Secondary | OpFillMax Secondary

fun apply_skill_op :: "SecSkills \<Rightarrow> skill_op \<Rightarrow> SecSkills" where
  "apply_skill_op this (OpAddSkill skill) = AddSkill this skill"
| "apply_skill_op this (OpFillMax skill) = FillMax this skill"

definition run_skill_ops :: "skill_op list \<Rightarrow> SecSkills" where
  "run_skill_ops ops = foldl apply_skill_op [] ops"

fun fill_is_empty :: "skill_op \<Rightarrow> bool" where
  "fill_is_empty (OpAddSkill skill) = True"
| "fill_is_empty (OpFillMax skill) = (\<not> isValid skill)"

text \<open>The kinds of the valid entries, in slot order.\<close>

definition valid_kinds :: "SecSkills \<Rightarrow> int list" where
  "valid_kinds this = map Skill (filter isValid this)"


subsection \<open>Race weight tables\<close>

text \<open>
  \<open>GameStatic::GetSkillStats(race)\<close> returns a pointer to the race's \<open>stats_t\<close>, or a
  null pointer. The tables are data of another module: they are the parameter \<open>gs\<close> of
  everything that reads them. Of \<open>stats_t\<close> only \<open>mature_secondary\<close> is read on level-up;
  its fields are the ones \<open>SecondaryGetWeightSkillFromRace\<close> names, unsigned weights.
\<close>

record secondary_t =
  pathfinding :: nat
  archery :: nat
  logistics :: nat
  scouting :: nat
  diplomacy :: nat
  navigation :: nat
  leadership :: nat
  wisdom :: nat
  mysticism :: nat
  luck :: nat
  ballistics :: nat
  eagleeye :: nat
  necromancy :: nat
  estates :: nat
  offense :: nat
  air_magic :: nat
  armorer :: nat
  artillery :: nat
  earth_magic :: nat
  fire_magic :: nat
  first_aid :: nat
  intelligence :: nat
  learning :: nat
  resistance :: nat
  scholar :: nat
  sorcery :: nat
  tactics :: nat
  water_magic :: nat

record stats_t =
  mature_secondary :: secondary_t

type_synonym skill_stats = "int \<Rightarrow> stats_t option"

text \<open>The result is an \<open>int\<close> in the source; it is read from unsigned fields or is 0.\<close>

definition SecondaryGetWeightSkillFromRace :: "skill_stats \<Rightarrow> int \<Rightarrow> int \<Rightarrow> nat" where
  "SecondaryGetWeightSkillFromRace gs race skill =
     (case gs race of
        Some ptr \<Rightarrow>
          if skill = PATHFINDING then pathfinding (mature_secondary ptr)
          else if skill = ARCHERY then archery (mature_secondary ptr)
          else if skill = LOGISTICS then logistics (mature_secondary ptr)
          else if skill = SCOUTING then scouting (mature_secondary ptr)
          else if skill = DIPLOMACY then diplomacy (mature_secondary ptr)
          else if skill = NAVIGATION then navigation (mature_secondary ptr)
          else if skill = LEADERSHIP then leadership (mature_secondary ptr)
          else if skill = WISDOM then wisdom (mature_secondary ptr)
          else if skill = MYSTICISM then mysticism (mature_secondary ptr)
          else if skill = LUCK then luck (mature_secondary ptr)
          else if skill = BALLISTICS then ballistics (mature_secondary ptr)
          else if skill = EAGLEEYE then eagleeye (mature_secondary ptr)
          else if skill = NECROMANCY then necromancy (mature_secondary ptr)
          else if skill = ESTATES then estates (mature_secondary ptr)
          else if skill = OFFENSE then offense (mature_secondary ptr)
          else if skill = AIRMAGIC then air_magic (mature_secondary ptr)
          else if skill = ARMORER then armorer (mature_secondary ptr)
          else if skill = ARTILLERY then artillery (mature_secondary ptr)
          else if skill = EARTHMAGIC then earth_magic (mature_secondary ptr)
          else if skill = FIREMAGIC then fire_magic (mature_secondary ptr)
          else if skill = FIRSTAID then first_aid (mature_secondary ptr)
          else if skill = INTELLIGENCE then intelligence (mature_secondary ptr)
          else if skill = LEARNING then learning (mature_secondary ptr)
          else if skill = RESISTANCE then resistance (mature_secondary ptr)
          else if skill = SCHOLAR then scholar (mature_secondary ptr)
          else if skill = SORCERY then sorcery (mature_secondary ptr)
          else if skill = TACTICS then tactics (mature_secondary ptr)
          else if skill = WATERMAGIC then water_magic (mature_secondary ptr)
          else 0
      | None \<Rightarrow> 0)"

subsection \<open>The weighted selector\<close>

text \<open>
  Modelled from the spec: the class \<open>Rand::Queue\<close> (rand.h and rand.cpp are not among the
  source files). The spec's selector takes entries (item, weight \<ge> 0) and a seed;
  zero-weight items are never chosen "but may still occupy a slot"; when every weight is
  0 or there is no entry it returns the sentinel "none"; otherwise it computes the
  running sum of the weights, maps the seed into [0, totalWeight) and returns the first
  item whose cumulative weight exceeds the mapped value. The sentinel is 0, the value the
  callers compare with (\<open>Secondary::UNKNOWN\<close>). How a seed is mapped into the range is the
  generator's business: \<open>rnd seed totalWeight\<close> is a parameter, reduced modulo the total so that
  every choice of \<open>rnd\<close> is a mapping into [0, totalWeight), and every such mapping is one
  choice of \<open>rnd\<close>.
\<close>

type_synonym Queue = "(int \<times> nat) list"

type_synonym seed_map = "32 word \<Rightarrow> nat \<Rightarrow> nat"

definition Queue_none :: int where
  "Queue_none = 0"

definition Queue_Push :: "Queue \<Rightarrow> int \<Rightarrow> nat \<Rightarrow> Queue" where
  "Queue_Push q item weight = q @ [(item, weight)]"

definition Queue_Size :: "Queue \<Rightarrow> nat" where
  "Queue_Size q = length q"

fun Queue_first_exceeding :: "Queue \<Rightarrow> nat \<Rightarrow> int" where
  "Queue_first_exceeding [] r = Queue_none"
| "Queue_first_exceeding ((item, weight) # q) r =
     (if r < weight then item else Queue_first_exceeding q (r - weight))"

definition Queue_GetWithSeed :: "seed_map \<Rightarrow> Queue \<Rightarrow> 32 word \<Rightarrow> int" where
  "Queue_GetWithSeed rnd q seed =
     (let totalWeight = sum_list (map snd q)
      in if totalWeight = 0 then Queue_none
         else Queue_first_exceeding q (rnd seed totalWeight mod totalWeight))"

subsection \<open>Level-up proposals\<close>

definition SecondaryPriorityFromRace ::
  "skill_stats \<Rightarrow> seed_map \<Rightarrow> int \<Rightarrow> int list \<Rightarrow> 32 word \<Rightarrow> int" where
  "SecondaryPriorityFromRace gs rnd race exclude seed =
     (let parts =
            foldl (\<lambda>parts skill.
                     if skill \<notin> set exclude
                     then Queue_Push parts skill (SecondaryGetWeightSkillFromRace gs race skill)
                     else parts)
                  [] secskills
      in if Queue_Size parts \<noteq> 0 then Queue_GetWithSeed rnd parts seed else UNKNOWN)"

text \<open>
  The local vector \<open>exclude_skills\<close> of \<open>FindSkillsForLevelUp\<close> as it stands before the
  first pick: the kinds of the entries at Expert level, then, when all slots are taken,
  the kinds of \<open>secskills\<close> whose \<open>GetLevel\<close> is NONE.
\<close>

definition exclude_skills :: "SecSkills \<Rightarrow> int list" where
  "exclude_skills this =
     map Skill (filter (\<lambda>it. Level it = Level_EXPERT) this) @
     (if HEROESMAXSKILL \<le> Count this
      then filter (\<lambda>skill. Level_NONE = GetLevel this skill) secskills
      else [])"

text \<open>
  \<open>FindSkillsForLevelUp\<close> is a const member function with two reference parameters,
  \<open>sec1\<close> and \<open>sec2\<close>, which it reads and writes. The first model is for callers that
  pass two objects of their own: the state by value, the two parameters in and out.
\<close>

definition FindSkillsForLevelUp ::
  "skill_stats \<Rightarrow> seed_map \<Rightarrow> SecSkills \<Rightarrow> int \<Rightarrow> 32 word \<Rightarrow> 32 word
     \<Rightarrow> Secondary \<Rightarrow> Secondary \<Rightarrow> Secondary \<times> Secondary" where
  "FindSkillsForLevelUp gs rnd this race seedSkill1 seedSkill2 sec1 sec2 =
     (let excl = exclude_skills this;
          sec1 = SetSkill sec1 (SecondaryPriorityFromRace gs rnd race excl seedSkill1)
      in if UNKNOWN \<noteq> Skill sec1 then
           let excl = excl @ [Skill sec1];
               sec2 = SetSkill sec2 (SecondaryPriorityFromRace gs rnd race excl seedSkill2);
               sec1 = SetLevel sec1 (GetLevel this (Skill sec1));
               sec2 = SetLevel sec2 (GetLevel this (Skill sec2));
               sec1 = NextLevel sec1;
               sec2 = NextLevel sec2
           in (sec1, sec2)
         else (sec1, sec2))"

text \<open>
  The second model keeps the references: a store maps object addresses to \<open>Secondary\<close>
  values, the \<open>SecSkills\<close> object is the list of the addresses of its elements,
  \<open>sec1\<close> and \<open>sec2\<close> are addresses, and every statement of the body reads the store
  the statement before it left. Nothing is assumed about the addresses, so the two
  parameters may be the same object or elements of the vector itself.
\<close>

type_synonym addr = nat

type_synonym store = "addr \<Rightarrow> Secondary"

definition FindSkillsForLevelUp_ref ::
  "skill_stats \<Rightarrow> seed_map \<Rightarrow> addr list \<Rightarrow> int \<Rightarrow> 32 word \<Rightarrow> 32 word
     \<Rightarrow> addr \<Rightarrow> addr \<Rightarrow> store \<Rightarrow> store" where
  "FindSkillsForLevelUp_ref gs rnd this race seedSkill1 seedSkill2 sec1 sec2 h =
     (let excl = exclude_skills (map h this);
          h1 = h(sec1 := SetSkill (h sec1) (SecondaryPriorityFromRace gs rnd race excl seedSkill1))
      in if UNKNOWN \<noteq> Skill (h1 sec1) then
           let excl = excl @ [Skill (h1 sec1)];
               h2 = h1(sec2 := SetSkill (h1 sec2)
                                 (SecondaryPriorityFromRace gs rnd race excl seedSkill2));
               h3 = h2(sec1 := SetLevel (h2 sec1) (GetLevel (map h2 this) (Skill (h2 sec1))));
               h4 = h3(sec2 := SetLevel (h3 sec2) (GetLevel (map h3 this) (Skill (h3 sec2))));
               h5 = h4(sec1 := NextLevel (h4 sec1));
               h6 = h5(sec2 := NextLevel (h5 sec2))
           in h6
         else h1)"


section \<open>Spells (src/fheroes2/spell/spell.cpp)\<close>

subsection \<open>Spell ids and the table of spell statistics\<close>

text \<open>
  Modelled from the spec: the enumeration of the spell ids and of the schools is
  declared in \<open>spell.h\<close>, which is not among the source files. Each id maps 1:1 into
  the table \<open>spells[]\<close>, which is indexed by the id: its rows give the ids in their
  order, from \<open>NONE\<close> ("Unknown") to \<open>PETRIFY\<close>, under the names the case labels of
  the source use. The schools are the enumerators the table names.
\<close>

datatype school = NO_SCHOOL | FIRE_MAGIC | AIR_MAGIC | WATER_MAGIC | EARTH_MAGIC

datatype spell =
    NONE | FIREBALL | FIREBLAST | LIGHTNINGBOLT | CHAINLIGHTNING | TELEPORT | CURE
  | MASSCURE | RESURRECT | RESURRECTTRUE | HASTE | MASSHASTE | SLOW | MASSSLOW | BLIND
  | BLESS | MASSBLESS | STONESKIN | STEELSKIN | CURSE | MASSCURSE | HOLYWORD | HOLYSHOUT
  | ANTIMAGIC | DISPEL | MASSDISPEL | ARROW | BERSERKER | ARMAGEDDON | ELEMENTALSTORM
  | METEORSHOWER | PARALYZE | HYPNOTIZE | COLDRAY | COLDRING | DISRUPTINGRAY | DEATHRIPPLE
  | DEATHWAVE | DRAGONSLAYER | BLOODLUST | ANIMATEDEAD | MIRRORIMAGE | SHIELD | MASSSHIELD
  | SUMMONEELEMENT | SUMMONAELEMENT | SUMMONFELEMENT | SUMMONWELEMENT | EARTHQUAKE
  | VIEWMINES | VIEWRESOURCES | VIEWARTIFACTS | VIEWTOWNS | VIEWHEROES | VIEWALL
  | IDENTIFYHERO | SUMMONBOAT | DIMENSIONDOOR | TOWNGATE | TOWNPORTAL | VISIONS | HAUNT
  | SETEGUARDIAN | SETAGUARDIAN | SETFGUARDIAN | SETWGUARDIAN | RANDOM | RANDOM1 | RANDOM2
  | RANDOM3 | RANDOM4 | RANDOM5 | PETRIFY

text \<open>
  \<open>struct spellstats_t\<close>, without the description text. The numeric fields are
  \<open>uint8_t\<close>, \<open>uint16_t\<close> and \<open>uint32_t\<close> constants; every use promotes them to a wider
  type first, so they are kept as natural numbers.
\<close>

record spellstats_t =
  name :: string
  schoolOfMagic :: school
  spellPoints :: nat
  spellPointsDiscounts :: "nat list"
  schoolLevelMod :: "nat list"
  movePoints :: nat
  minMovePoints :: nat
  imageId :: nat
  extraValue :: nat

primrec spells :: "spell \<Rightarrow> spellstats_t" where
  "spells NONE =
     \<lparr> name = ''Unknown'', schoolOfMagic = NO_SCHOOL, spellPoints = 0,
       spellPointsDiscounts = [0, 0, 0, 0], schoolLevelMod = [0, 0, 0, 0],
       movePoints = 0, minMovePoints = 0, imageId = 0, extraValue = 0 \<rparr>"
| "spells FIREBALL =
     \<lparr> name = ''Fireball'', schoolOfMagic = FIRE_MAGIC, spellPoints = 9,
       spellPointsDiscounts = [0, 2, 2, 2], schoolLevelMod = [0, 10, 20, 50],
       movePoints = 0, minMovePoints = 0, imageId = 8, extraValue = 10 \<rparr>"
| "spells FIREBLAST =
     \<lparr> name = ''Fireblast'', schoolOfMagic = FIRE_MAGIC, spellPoints = 15,
       spellPointsDiscounts = [0, 3, 3, 3], schoolLevelMod = [0, 15, 30, 60],
       movePoints = 0, minMovePoints = 0, imageId = 9, extraValue = 10 \<rparr>"
| "spells LIGHTNINGBOLT =
     \<lparr> name = ''Lightning Bolt'', schoolOfMagic = AIR_MAGIC, spellPoints = 10,
       spellPointsDiscounts = [0, 3, 3, 3], schoolLevelMod = [0, 10, 20, 50],
       movePoints = 0, minMovePoints = 0, imageId = 4, extraValue = 25 \<rparr>"
| "spells CHAINLIGHTNING =
     \<lparr> name = ''Chain Lightning'', schoolOfMagic = AIR_MAGIC, spellPoints = 24,
       spellPointsDiscounts = [0, 4, 4, 4], schoolLevelMod = [0, 25, 50, 100],
       movePoints = 0, minMovePoints = 0, imageId = 5, extraValue = 40 \<rparr>"
| "spells TELEPORT =
     \<lparr> name = ''Teleport'', schoolOfMagic = WATER_MAGIC, spellPoints = 15,
       spellPointsDiscounts = [0, 3, 9, 12], schoolLevelMod = [0, 0, 0, 0],
       movePoints = 0, minMovePoints = 0, imageId = 10, extraValue = 0 \<rparr>"
| "spells CURE =
     \<lparr> name = ''Cure'', schoolOfMagic = WATER_MAGIC, spellPoints = 6,
       spellPointsDiscounts = [0, 1, 1, 1], schoolLevelMod = [0, 10, 20, 30],
       movePoints = 0, minMovePoints = 0, imageId = 6, extraValue = 5 \<rparr>"
| "spells MASSCURE =
     \<lparr> name = ''Mass Cure'', schoolOfMagic = WATER_MAGIC, spellPoints = 15,
       spellPointsDiscounts = [0, 5, 5, 5], schoolLevelMod = [0, 6, 14, 24],
       movePoints = 0, minMovePoints = 0, imageId = 60, extraValue = 5 \<rparr>"
| "spells RESURRECT =
     \<lparr> name = ''Resurrect'', schoolOfMagic = EARTH_MAGIC, spellPoints = 12,
       spellPointsDiscounts = [0, 4, 4, 4], schoolLevelMod = [0, 10, 20, 30],
       movePoints = 0, minMovePoints = 0, imageId = 13, extraValue = 50 \<rparr>"
| "spells RESURRECTTRUE =
     \<lparr> name = ''Resurrect True'', schoolOfMagic = EARTH_MAGIC, spellPoints = 20,
       spellPointsDiscounts = [0, 4, 4, 4], schoolLevelMod = [0, 20, 40, 50],
       movePoints = 0, minMovePoints = 0, imageId = 12, extraValue = 50 \<rparr>"
| "spells HASTE =
     \<lparr> name = ''Haste'', schoolOfMagic = AIR_MAGIC, spellPoints = 6,
       spellPointsDiscounts = [0, 1, 1, 1], schoolLevelMod = [0, 1, 1, 2],
       movePoints = 0, minMovePoints = 0, imageId = 14, extraValue = 2 \<rparr>"
| "spells MASSHASTE =
     \<lparr> name = ''Mass Haste'', schoolOfMagic = AIR_MAGIC, spellPoints = 10,
       spellPointsDiscounts = [0, 2, 2, 2], schoolLevelMod = [0, 0, 1, 1],
       movePoints = 0, minMovePoints = 0, imageId = 61, extraValue = 2 \<rparr>"
| "spells SLOW =
     \<lparr> name = ''spell|Slow'', schoolOfMagic = EARTH_MAGIC, spellPoints = 6,
       spellPointsDiscounts = [0, 1, 1, 1], schoolLevelMod = [0, 0, 1, 2],
       movePoints = 0, minMovePoints = 0, imageId = 1, extraValue = 0 \<rparr>"
| "spells MASSSLOW =
     \<lparr> name = ''Mass Slow'', schoolOfMagic = EARTH_MAGIC, spellPoints = 15,
       spellPointsDiscounts = [0, 3, 3, 3], schoolLevelMod = [0, 0, 1, 1],
       movePoints = 0, minMovePoints = 0, imageId = 62, extraValue = 0 \<rparr>"
| "spells BLIND =
     \<lparr> name = ''spell|Blind'', schoolOfMagic = FIRE_MAGIC, spellPoints = 10,
       spellPointsDiscounts = [0, 2, 2, 2], schoolLevelMod = [0, 0, 0, 0],
       movePoints = 0, minMovePoints = 0, imageId = 21, extraValue = 0 \<rparr>"
| "spells BLESS =
     \<lparr> name = ''Bless'', schoolOfMagic = WATER_MAGIC, spellPoints = 5,
       spellPointsDiscounts = [0, 1, 1, 1], schoolLevelMod = [0, 0, 1, 2],
       movePoints = 0, minMovePoints = 0, imageId = 7, extraValue = 0 \<rparr>"
| "spells MASSBLESS =
     \<lparr> name = ''Mass Bless'', schoolOfMagic = WATER_MAGIC, spellPoints = 12,
       spellPointsDiscounts = [0, 3, 3, 3], schoolLevelMod = [0, 0, 1, 1],
       movePoints = 0, minMovePoints = 0, imageId = 63, extraValue = 0 \<rparr>"
| "spells STONESKIN =
     \<lparr> name = ''Stoneskin'', schoolOfMagic = EARTH_MAGIC, spellPoints = 3,
       spellPointsDiscounts = [0, 1, 1, 1], schoolLevelMod = [0, 0, 1, 2],
       movePoints = 0, minMovePoints = 0, imageId = 31, extraValue = 3 \<rparr>"
| "spells STEELSKIN =
     \<lparr> name = ''Steelskin'', schoolOfMagic = EARTH_MAGIC, spellPoints = 6,
       spellPointsDiscounts = [0, 2, 2, 2], schoolLevelMod = [0, 0, 2, 3],
       movePoints = 0, minMovePoints = 0, imageId = 30, extraValue = 5 \<rparr>"
| "spells CURSE =
     \<lparr> name = ''Curse'', schoolOfMagic = FIRE_MAGIC, spellPoints = 6,
       spellPointsDiscounts = [0, 1, 1, 1], schoolLevelMod = [0, 0, 1, 2],
       movePoints = 0, minMovePoints = 0, imageId = 3, extraValue = 0 \<rparr>"
| "spells MASSCURSE =
     \<lparr> name = ''Mass Curse'', schoolOfMagic = FIRE_MAGIC, spellPoints = 12,
       spellPointsDiscounts = [0, 2, 2, 2], schoolLevelMod = [0, 0, 1, 1],
       movePoints = 0, minMovePoints = 0, imageId = 64, extraValue = 0 \<rparr>"
| "spells HOLYWORD =
     \<lparr> name = ''Holy Word'', schoolOfMagic = AIR_MAGIC, spellPoints = 12,
       spellPointsDiscounts = [0, 3, 3, 3], schoolLevelMod = [0, 3, 3, 3],
       movePoints = 0, minMovePoints = 0, imageId = 22, extraValue = 10 \<rparr>"
| "spells HOLYSHOUT =
     \<lparr> name = ''Holy Shout'', schoolOfMagic = AIR_MAGIC, spellPoints = 15,
       spellPointsDiscounts = [0, 3, 3, 3], schoolLevelMod = [0, 3, 3, 3],
       movePoints = 0, minMovePoints = 0, imageId = 23, extraValue = 20 \<rparr>"
| "spells ANTIMAGIC =
     \<lparr> name = ''Anti-Magic'', schoolOfMagic = EARTH_MAGIC, spellPoints = 15,
       spellPointsDiscounts = [0, 3, 3, 3], schoolLevelMod = [0, 0, 1, 2],
       movePoints = 0, minMovePoints = 0, imageId = 17, extraValue = 0 \<rparr>"
| "spells DISPEL =
     \<lparr> name = ''Dispel Magic'', schoolOfMagic = WATER_MAGIC, spellPoints = 5,
       spellPointsDiscounts = [0, 1, 1, 1], schoolLevelMod = [0, 0, 0, 0],
       movePoints = 0, minMovePoints = 0, imageId = 18, extraValue = 0 \<rparr>"
| "spells MASSDISPEL =
     \<lparr> name = ''Mass Dispel'', schoolOfMagic = WATER_MAGIC, spellPoints = 12,
       spellPointsDiscounts = [0, 3, 3, 3], schoolLevelMod = [0, 0, 0, 0],
       movePoints = 0, minMovePoints = 0, imageId = 18, extraValue = 0 \<rparr>"
| "spells ARROW =
     \<lparr> name = ''Magic Arrow'', schoolOfMagic = AIR_MAGIC, spellPoints = 3,
       spellPointsDiscounts = [0, 1, 1, 1], schoolLevelMod = [0, 10, 20, 30],
       movePoints = 0, minMovePoints = 0, imageId = 38, extraValue = 10 \<rparr>"
| "spells BERSERKER =
     \<lparr> name = ''Berserker'', schoolOfMagic = FIRE_MAGIC, spellPoints = 12,
       spellPointsDiscounts = [0, 4, 4, 4], schoolLevelMod = [0, 0, 0, 0],
       movePoints = 0, minMovePoints = 0, imageId = 19, extraValue = 0 \<rparr>"
| "spells ARMAGEDDON =
     \<lparr> name = ''Armageddon'', schoolOfMagic = FIRE_MAGIC, spellPoints = 24,
       spellPointsDiscounts = [0, 4, 4, 4], schoolLevelMod = [0, 10, 40, 80],
       movePoints = 0, minMovePoints = 0, imageId = 16, extraValue = 50 \<rparr>"
| "spells ELEMENTALSTORM =
     \<lparr> name = ''Elemental Storm'', schoolOfMagic = FIRE_MAGIC, spellPoints = 20,
       spellPointsDiscounts = [0, 5, 5, 5], schoolLevelMod = [0, 20, 50, 60],
       movePoints = 0, minMovePoints = 0, imageId = 11, extraValue = 25 \<rparr>"
| "spells METEORSHOWER =
     \<lparr> name = ''Meteor Shower'', schoolOfMagic = EARTH_MAGIC, spellPoints = 16,
       spellPointsDiscounts = [0, 4, 4, 4], schoolLevelMod = [0, 20, 40, 70],
       movePoints = 0, minMovePoints = 0, imageId = 24, extraValue = 25 \<rparr>"
| "spells PARALYZE =
     \<lparr> name = ''Paralyze'', schoolOfMagic = FIRE_MAGIC, spellPoints = 9,
       spellPointsDiscounts = [0, 3, 3, 3], schoolLevelMod = [0, 0, 0, 0],
       movePoints = 0, minMovePoints = 0, imageId = 20, extraValue = 0 \<rparr>"
| "spells HYPNOTIZE =
     \<lparr> name = ''Hypnotize'', schoolOfMagic = AIR_MAGIC, spellPoints = 18,
       spellPointsDiscounts = [0, 3, 3, 3], schoolLevelMod = [0, 10, 20, 50],
       movePoints = 0, minMovePoints = 0, imageId = 37, extraValue = 25 \<rparr>"
| "spells COLDRAY =
     \<lparr> name = ''Cold Ray'', schoolOfMagic = WATER_MAGIC, spellPoints = 8,
       spellPointsDiscounts = [0, 2, 2, 2], schoolLevelMod = [0, 10, 20, 50],
       movePoints = 0, minMovePoints = 0, imageId = 36, extraValue = 20 \<rparr>"
| "spells COLDRING =
     \<lparr> name = ''Cold Ring'', schoolOfMagic = WATER_MAGIC, spellPoints = 9,
       spellPointsDiscounts = [0, 3, 3, 3], schoolLevelMod = [0, 15, 30, 60],
       movePoints = 0, minMovePoints = 0, imageId = 35, extraValue = 10 \<rparr>"
| "spells DISRUPTINGRAY =
     \<lparr> name = ''Disrupting Ray'', schoolOfMagic = EARTH_MAGIC, spellPoints = 7,
       spellPointsDiscounts = [0, 2, 2, 2], schoolLevelMod = [0, 0, 1, 2],
       movePoints = 0, minMovePoints = 0, imageId = 34, extraValue = 3 \<rparr>"
| "spells DEATHRIPPLE =
     \<lparr> name = ''Death Ripple'', schoolOfMagic = EARTH_MAGIC, spellPoints = 6,
       spellPointsDiscounts = [0, 1, 1, 1], schoolLevelMod = [0, 0, 5, 10],
       movePoints = 0, minMovePoints = 0, imageId = 29, extraValue = 5 \<rparr>"
| "spells DEATHWAVE =
     \<lparr> name = ''Death Wave'', schoolOfMagic = EARTH_MAGIC, spellPoints = 10,
       spellPointsDiscounts = [0, 2, 2, 2], schoolLevelMod = [0, 10, 20, 30],
       movePoints = 0, minMovePoints = 0, imageId = 28, extraValue = 10 \<rparr>"
| "spells DRAGONSLAYER =
     \<lparr> name = ''Dragon Slayer'', schoolOfMagic = FIRE_MAGIC, spellPoints = 6,
       spellPointsDiscounts = [0, 1, 1, 1], schoolLevelMod = [0, 10, 20, 30],
       movePoints = 0, minMovePoints = 0, imageId = 32, extraValue = 5 \<rparr>"
| "spells BLOODLUST =
     \<lparr> name = ''Blood Lust'', schoolOfMagic = FIRE_MAGIC, spellPoints = 5,
       spellPointsDiscounts = [0, 1, 1, 1], schoolLevelMod = [0, 0, 1, 2],
       movePoints = 0, minMovePoints = 0, imageId = 27, extraValue = 3 \<rparr>"
| "spells ANIMATEDEAD =
     \<lparr> name = ''Animate Dead'', schoolOfMagic = EARTH_MAGIC, spellPoints = 15,
       spellPointsDiscounts = [0, 3, 3, 3], schoolLevelMod = [0, 10, 40, 70],
       movePoints = 0, minMovePoints = 0, imageId = 25, extraValue = 50 \<rparr>"
| "spells MIRRORIMAGE =
     \<lparr> name = ''Mirror Image'', schoolOfMagic = WATER_MAGIC, spellPoints = 25,
       spellPointsDiscounts = [0, 5, 5, 5], schoolLevelMod = [0, 4, 5, 6],
       movePoints = 0, minMovePoints = 0, imageId = 26, extraValue = 0 \<rparr>"
| "spells SHIELD =
     \<lparr> name = ''Shield'', schoolOfMagic = EARTH_MAGIC, spellPoints = 5,
       spellPointsDiscounts = [0, 2, 2, 2], schoolLevelMod = [0, 1, 2, 2],
       movePoints = 0, minMovePoints = 0, imageId = 15, extraValue = 2 \<rparr>"
| "spells MASSSHIELD =
     \<lparr> name = ''Mass Shield'', schoolOfMagic = EARTH_MAGIC, spellPoints = 7,
       spellPointsDiscounts = [0, 2, 2, 2], schoolLevelMod = [0, 0, 1, 1],
       movePoints = 0, minMovePoints = 0, imageId = 65, extraValue = 0 \<rparr>"
| "spells SUMMONEELEMENT =
     \<lparr> name = ''Summon Earth Elemental'', schoolOfMagic = EARTH_MAGIC, spellPoints = 30,
       spellPointsDiscounts = [0, 10, 10, 10], schoolLevelMod = [0, 20, 50, 80],
       movePoints = 0, minMovePoints = 0, imageId = 56, extraValue = 3 \<rparr>"
| "spells SUMMONAELEMENT =
     \<lparr> name = ''Summon Air Elemental'', schoolOfMagic = AIR_MAGIC, spellPoints = 30,
       spellPointsDiscounts = [0, 10, 10, 10], schoolLevelMod = [0, 20, 50, 80],
       movePoints = 0, minMovePoints = 0, imageId = 57, extraValue = 3 \<rparr>"
| "spells SUMMONFELEMENT =
     \<lparr> name = ''Summon Fire Elemental'', schoolOfMagic = FIRE_MAGIC, spellPoints = 30,
       spellPointsDiscounts = [0, 10, 10, 10], schoolLevelMod = [0, 20, 50, 80],
       movePoints = 0, minMovePoints = 0, imageId = 58, extraValue = 3 \<rparr>"
| "spells SUMMONWELEMENT =
     \<lparr> name = ''Summon Water Elemental'', schoolOfMagic = WATER_MAGIC, spellPoints = 30,
       spellPointsDiscounts = [0, 10, 10, 10], schoolLevelMod = [0, 20, 50, 80],
       movePoints = 0, minMovePoints = 0, imageId = 59, extraValue = 3 \<rparr>"
| "spells EARTHQUAKE =
     \<lparr> name = ''Earthquake'', schoolOfMagic = EARTH_MAGIC, spellPoints = 15,
       spellPointsDiscounts = [0, 5, 5, 5], schoolLevelMod = [0, 0, 1, 2],
       movePoints = 0, minMovePoints = 0, imageId = 33, extraValue = 0 \<rparr>"
| "spells VIEWMINES =
     \<lparr> name = ''View Mines'', schoolOfMagic = EARTH_MAGIC, spellPoints = 1,
       spellPointsDiscounts = [0, 1, 1, 1], schoolLevelMod = [0, 0, 0, 0],
       movePoints = 0, minMovePoints = 0, imageId = 39, extraValue = 0 \<rparr>"
| "spells VIEWRESOURCES =
     \<lparr> name = ''View Resources'', schoolOfMagic = EARTH_MAGIC, spellPoints = 1,
       spellPointsDiscounts = [0, 1, 1, 1], schoolLevelMod = [0, 0, 0, 0],
       movePoints = 0, minMovePoints = 0, imageId = 40, extraValue = 0 \<rparr>"
| "spells VIEWARTIFACTS =
     \<lparr> name = ''View Artifacts'', schoolOfMagic = AIR_MAGIC, spellPoints = 2,
       spellPointsDiscounts = [0, 1, 1, 1], schoolLevelMod = [0, 0, 0, 0],
       movePoints = 0, minMovePoints = 0, imageId = 41, extraValue = 0 \<rparr>"
| "spells VIEWTOWNS =
     \<lparr> name = ''View Towns'', schoolOfMagic = AIR_MAGIC, spellPoints = 2,
       spellPointsDiscounts = [0, 1, 1, 1], schoolLevelMod = [0, 0, 0, 0],
       movePoints = 0, minMovePoints = 0, imageId = 42, extraValue = 0 \<rparr>"
| "spells VIEWHEROES =
     \<lparr> name = ''View Heroes'', schoolOfMagic = AIR_MAGIC, spellPoints = 2,
       spellPointsDiscounts = [0, 1, 1, 1], schoolLevelMod = [0, 0, 0, 0],
       movePoints = 0, minMovePoints = 0, imageId = 43, extraValue = 0 \<rparr>"
| "spells VIEWALL =
     \<lparr> name = ''View All'', schoolOfMagic = AIR_MAGIC, spellPoints = 3,
       spellPointsDiscounts = [0, 1, 1, 1], schoolLevelMod = [0, 0, 0, 0],
       movePoints = 0, minMovePoints = 0, imageId = 44, extraValue = 0 \<rparr>"
| "spells IDENTIFYHERO =
     \<lparr> name = ''Identify Hero'', schoolOfMagic = WATER_MAGIC, spellPoints = 3,
       spellPointsDiscounts = [0, 2, 2, 2], schoolLevelMod = [0, 0, 0, 0],
       movePoints = 0, minMovePoints = 0, imageId = 45, extraValue = 0 \<rparr>"
| "spells SUMMONBOAT =
     \<lparr> name = ''Summon Boat'', schoolOfMagic = WATER_MAGIC, spellPoints = 5,
       spellPointsDiscounts = [0, 3, 3, 3], schoolLevelMod = [0, 0, 0, 0],
       movePoints = 0, minMovePoints = 0, imageId = 46, extraValue = 0 \<rparr>"
| "spells DIMENSIONDOOR =
     \<lparr> name = ''Dimension Door'', schoolOfMagic = AIR_MAGIC, spellPoints = 10,
       spellPointsDiscounts = [0, 0, 0, 0], schoolLevelMod = [0, 0, 0, 0],
       movePoints = 225, minMovePoints = 69, imageId = 47, extraValue = 0 \<rparr>"
| "spells TOWNGATE =
     \<lparr> name = ''Town Gate'', schoolOfMagic = EARTH_MAGIC, spellPoints = 10,
       spellPointsDiscounts = [0, 0, 0, 0], schoolLevelMod = [0, 0, 0, 0],
       movePoints = 225, minMovePoints = 69, imageId = 48, extraValue = 0 \<rparr>"
| "spells TOWNPORTAL =
     \<lparr> name = ''Town Portal'', schoolOfMagic = EARTH_MAGIC, spellPoints = 20,
       spellPointsDiscounts = [0, 0, 0, 0], schoolLevelMod = [0, 0, 0, 0],
       movePoints = 225, minMovePoints = 69, imageId = 49, extraValue = 0 \<rparr>"
| "spells VISIONS =
     \<lparr> name = ''Visions'', schoolOfMagic = AIR_MAGIC, spellPoints = 6,
       spellPointsDiscounts = [0, 0, 0, 0], schoolLevelMod = [0, 0, 0, 0],
       movePoints = 0, minMovePoints = 0, imageId = 50, extraValue = 3 \<rparr>"
| "spells HAUNT =
     \<lparr> name = ''Haunt'', schoolOfMagic = NO_SCHOOL, spellPoints = 8,
       spellPointsDiscounts = [0, 0, 0, 0], schoolLevelMod = [0, 0, 0, 0],
       movePoints = 0, minMovePoints = 0, imageId = 51, extraValue = 4 \<rparr>"
| "spells SETEGUARDIAN =
     \<lparr> name = ''Set Earth Guardian'', schoolOfMagic = EARTH_MAGIC, spellPoints = 15,
       spellPointsDiscounts = [0, 5, 5, 5], schoolLevelMod = [0, 40, 60, 90],
       movePoints = 0, minMovePoints = 0, imageId = 52, extraValue = 4 \<rparr>"
| "spells SETAGUARDIAN =
     \<lparr> name = ''Set Air Guardian'', schoolOfMagic = AIR_MAGIC, spellPoints = 15,
       spellPointsDiscounts = [0, 5, 5, 5], schoolLevelMod = [0, 40, 60, 90],
       movePoints = 0, minMovePoints = 0, imageId = 53, extraValue = 4 \<rparr>"
| "spells SETFGUARDIAN =
     \<lparr> name = ''Set Fire Guardian'', schoolOfMagic = FIRE_MAGIC, spellPoints = 15,
       spellPointsDiscounts = [0, 5, 5, 5], schoolLevelMod = [0, 40, 60, 90],
       movePoints = 0, minMovePoints = 0, imageId = 54, extraValue = 4 \<rparr>"
| "spells SETWGUARDIAN =
     \<lparr> name = ''Set Water Guardian'', schoolOfMagic = WATER_MAGIC, spellPoints = 15,
       spellPointsDiscounts = [0, 5, 5, 5], schoolLevelMod = [0, 40, 60, 90],
       movePoints = 0, minMovePoints = 0, imageId = 55, extraValue = 4 \<rparr>"
| "spells RANDOM =
     \<lparr> name = ''Random'', schoolOfMagic = NO_SCHOOL, spellPoints = 1,
       spellPointsDiscounts = [0, 0, 0, 0], schoolLevelMod = [0, 0, 0, 0],
       movePoints = 0, minMovePoints = 0, imageId = 0, extraValue = 0 \<rparr>"
| "spells RANDOM1 =
     \<lparr> name = ''Random 1'', schoolOfMagic = NO_SCHOOL, spellPoints = 1,
       spellPointsDiscounts = [0, 0, 0, 0], schoolLevelMod = [0, 0, 0, 0],
       movePoints = 0, minMovePoints = 0, imageId = 0, extraValue = 0 \<rparr>"
| "spells RANDOM2 =
     \<lparr> name = ''Random 2'', schoolOfMagic = NO_SCHOOL, spellPoints = 1,
       spellPointsDiscounts = [0, 0, 0, 0], schoolLevelMod = [0, 0, 0, 0],
       movePoints = 0, minMovePoints = 0, imageId = 0, extraValue = 0 \<rparr>"
| "spells RANDOM3 =
     \<lparr> name = ''Random 3'', schoolOfMagic = NO_SCHOOL, spellPoints = 1,
       spellPointsDiscounts = [0, 0, 0, 0], schoolLevelMod = [0, 0, 0, 0],
       movePoints = 0, minMovePoints = 0, imageId = 0, extraValue = 0 \<rparr>"
| "spells RANDOM4 =
     \<lparr> name = ''Random 4'', schoolOfMagic = NO_SCHOOL, spellPoints = 1,
       spellPointsDiscounts = [0, 0, 0, 0], schoolLevelMod = [0, 0, 0, 0],
       movePoints = 0, minMovePoints = 0, imageId = 0, extraValue = 0 \<rparr>"
| "spells RANDOM5 =
     \<lparr> name = ''Random 5'', schoolOfMagic = NO_SCHOOL, spellPoints = 1,
       spellPointsDiscounts = [0, 0, 0, 0], schoolLevelMod = [0, 0, 0, 0],
       movePoints = 0, minMovePoints = 0, imageId = 0, extraValue = 0 \<rparr>"
| "spells PETRIFY =
     \<lparr> name = ''Petrification'', schoolOfMagic = NO_SCHOOL, spellPoints = 1,
       spellPointsDiscounts = [0, 0, 0, 0], schoolLevelMod = [0, 0, 0, 0],
       movePoints = 0, minMovePoints = 0, imageId = 66, extraValue = 0 \<rparr>"

subsection \<open>Classification\<close>

definition isCombat :: "spell \<Rightarrow> bool" where
  "isCombat sp \<longleftrightarrow>
     sp \<notin> {NONE, VIEWMINES, VIEWRESOURCES, VIEWARTIFACTS, VIEWTOWNS, VIEWHEROES, VIEWALL,
            IDENTIFYHERO, SUMMONBOAT, DIMENSIONDOOR, TOWNGATE, TOWNPORTAL, VISIONS, HAUNT,
            SETEGUARDIAN, SETAGUARDIAN, SETFGUARDIAN, SETWGUARDIAN}"

definition Damage :: "spell \<Rightarrow> 32 word" where
  "Damage sp =
     (if sp \<in> {ARROW, FIREBALL, FIREBLAST, LIGHTNINGBOLT, COLDRING, DEATHWAVE, HOLYWORD,
               CHAINLIGHTNING, ARMAGEDDON, ELEMENTALSTORM, METEORSHOWER, COLDRAY, HOLYSHOUT,
               DEATHRIPPLE}
      then of_nat (extraValue (spells sp)) else 0)"

definition isMindInfluence :: "spell \<Rightarrow> bool" where
  "isMindInfluence sp \<longleftrightarrow> sp \<in> {BLIND, PARALYZE, BERSERKER, HYPNOTIZE}"

definition Resurrect :: "spell \<Rightarrow> 32 word" where
  "Resurrect sp =
     (if sp \<in> {ANIMATEDEAD, RESURRECT, RESURRECTTRUE}
      then of_nat (extraValue (spells sp)) else 0)"

definition ExtraValue :: "spell \<Rightarrow> 32 word" where
  "ExtraValue sp = of_nat (extraValue (spells sp))"

definition isSummon :: "spell \<Rightarrow> bool" where
  "isSummon sp \<longleftrightarrow> sp \<in> {SUMMONEELEMENT, SUMMONAELEMENT, SUMMONFELEMENT, SUMMONWELEMENT}"

definition isMassActions :: "spell \<Rightarrow> bool" where
  "isMassActions sp \<longleftrightarrow>
     sp \<in> {MASSCURE, MASSHASTE, MASSSLOW, MASSBLESS, MASSCURSE, MASSDISPEL, MASSSHIELD}"

text \<open>
  Modelled from the spec: \<open>Spell::isAdventure\<close>, \<open>Spell::isDamage\<close> and
  \<open>Spell::isResurrect\<close> are members declared in \<open>spell.h\<close>, which is not among the source
  files. The spec describes \<open>isAdventure\<close> as a static classification, "complement-ish
  but not exact complement" of \<open>isCombat\<close>: "travel, detection, boat-summon, vision
  spells"; damage spells are the ids for which the extra value is a damage amount, and
  resurrect spells those for which it is a resurrect count.
\<close>

definition isAdventure :: "spell \<Rightarrow> bool" where
  "isAdventure sp \<longleftrightarrow>
     sp \<in> {DIMENSIONDOOR, TOWNGATE, TOWNPORTAL,
           VIEWMINES, VIEWRESOURCES, VIEWARTIFACTS, VIEWTOWNS, VIEWHEROES, VIEWALL, IDENTIFYHERO,
           SUMMONBOAT, VISIONS}"

definition isDamage :: "spell \<Rightarrow> bool" where
  "isDamage sp \<longleftrightarrow> Damage sp \<noteq> 0"

definition isResurrect :: "spell \<Rightarrow> bool" where
  "isResurrect sp \<longleftrightarrow> Resurrect sp \<noteq> 0"

subsection \<open>The caster\<close>

text \<open>
  \<open>HeroBase\<close>, \<open>BagArtifacts\<close> and the global \<open>world\<close> belong to other modules. A hero
  is the record of the answers it gives to the calls made here; the world gives, for a
  kingdom colour, the number of necromancy shrines built.
\<close>

datatype ArtifactBonusType =
    ArtifactBonusType_NONE
  | BLESS_SPELL_COST_REDUCTION_PERCENT
  | SUMMONING_SPELL_COST_REDUCTION_PERCENT
  | CURSE_SPELL_COST_REDUCTION_PERCENT
  | MIND_INFLUENCE_SPELL_COST_REDUCTION_PERCENT
  | NECROMANCY_SKILL

datatype SkillLevel = None_level | Basic | Advanced | Expert

record HeroBase =
  GetColor :: int
  schoolLevel :: "school \<Rightarrow> SkillLevel"
  getTotalArtifactMultipliedPercent :: "ArtifactBonusType \<Rightarrow> int list"
  isArtifactBonusPresent :: "ArtifactBonusType \<Rightarrow> bool"
  GetSecondaryValues :: "int \<Rightarrow> 32 word"

record World =
  GetCountNecromancyShrineBuild :: "int \<Rightarrow> 32 word"

text \<open>
  Modelled from the spec: \<open>HeroBase::GetSpellCostReduction\<close> is not among the source
  files. The spec: the caster's school-specific flat discount is "looked up via the
  spell's 4-entry discount schedule indexed by the caster's mastery level in that
  spell's school".
\<close>

primrec level_index :: "SkillLevel \<Rightarrow> nat" where
  "level_index None_level = 0"
| "level_index Basic = 1"
| "level_index Advanced = 2"
| "level_index Expert = 3"

definition GetSpellCostReduction :: "HeroBase \<Rightarrow> spell \<Rightarrow> nat" where
  "GetSpellCostReduction hero sp =
     spellPointsDiscounts (spells sp) ! level_index (schoolLevel hero (schoolOfMagic (spells sp)))"

subsection \<open>Spell::spellPoints\<close>

text \<open>
  The loop over the artifact percentages works on an \<open>int32_t\<close>; \<open>/\<close> truncates towards
  zero (\<open>sdiv\<close>). Each percentage is checked by \<open>assert( value >= 0 && value <= 100 )\<close>:
  a failed assertion is the result \<open>None\<close>. Within that range the products stay far
  inside 32 bits, so the cost is an unbounded \<open>int\<close>.
\<close>

fun reduce_by_percent :: "int list \<Rightarrow> int \<Rightarrow> int option" where
  "reduce_by_percent [] spellCost = Some spellCost"
| "reduce_by_percent (v # vs) spellCost =
     (if v \<ge> 0 \<and> v \<le> 100
      then reduce_by_percent vs (spellCost * (100 - v) sdiv 100)
      else None)"

definition bonus_type :: "spell \<Rightarrow> ArtifactBonusType" where
  "bonus_type sp =
     (if sp \<in> {BLESS, MASSBLESS} then BLESS_SPELL_COST_REDUCTION_PERCENT
      else if sp \<in> {SUMMONEELEMENT, SUMMONAELEMENT, SUMMONFELEMENT, SUMMONWELEMENT}
        then SUMMONING_SPELL_COST_REDUCTION_PERCENT
      else if sp \<in> {CURSE, MASSCURSE} then CURSE_SPELL_COST_REDUCTION_PERCENT
      else if isMindInfluence sp then MIND_INFLUENCE_SPELL_COST_REDUCTION_PERCENT
      else ArtifactBonusType_NONE)"

text \<open>
  The result type is \<open>uint32_t\<close>. The early return for a spell without a bonus type
  returns the \<open>int32_t\<close> cost as it is: the conversion is reduction modulo \<open>2^32\<close>
  (\<open>word_of_int\<close>).
\<close>

definition Spell_spellPoints :: "spell \<Rightarrow> HeroBase option \<Rightarrow> 32 word option" where
  "Spell_spellPoints sp hero =
     (case hero of
        None \<Rightarrow> Some (of_nat (spellPoints (spells sp)))
      | Some hero \<Rightarrow>
          let type = bonus_type sp;
              spellCost = int (spellPoints (spells sp)) - int (GetSpellCostReduction hero sp)
          in if type = ArtifactBonusType_NONE then Some (word_of_int spellCost)
             else
               (case reduce_by_percent (getTotalArtifactMultipliedPercent hero type) spellCost of
                  None \<Rightarrow> None
                | Some spellCost \<Rightarrow>
                    if spellCost < 1 then Some 1 else Some (word_of_int spellCost)))"

subsection \<open>Spell::getStrategicValue\<close>

text \<open>
  The two local constants of \<open>getStrategicValue\<close>. \<open>casts\<close> is a \<open>uint32_t\<close>; the
  modifier is a \<open>double\<close>, taken here as a real number: the claims about it concern the
  formula and the branch taken, not rounding.
\<close>

definition spell_casts :: "32 word \<Rightarrow> 32 word \<Rightarrow> 32 word" where
  "spell_casts spellCost currentSpellPoints =
     (if spellCost \<noteq> 0 then min 10 (currentSpellPoints div spellCost) else 0)"

definition amountModifier :: "32 word \<Rightarrow> real" where
  "amountModifier casts =
     (if casts = 1 then 1 else real (unat casts) - (0.05 * real (unat casts) * real (unat casts)))"

text \<open>
  \<open>Monster( id ).GetMonsterStrength()\<close> is the estimate of another module: the
  parameter \<open>GetMonsterStrength\<close>. \<open>spellPower\<close> and \<open>schoolSpellModifier\<close> are \<open>int\<close>
  parameters. In the damage branch they meet the \<open>uint32_t\<close> \<open>Damage()\<close>, so both are
  converted to \<open>uint32_t\<close> and the sum is computed modulo \<open>2^32\<close> before it becomes a
  \<open>double\<close>; in the summon branch \<open>spellPower\<close> is converted to \<open>double\<close> as it is.
\<close>

definition getStrategicValue ::
  "(spell \<Rightarrow> real) \<Rightarrow> spell \<Rightarrow> real \<Rightarrow> 32 word \<Rightarrow> int \<Rightarrow> int \<Rightarrow> real option" where
  "getStrategicValue GetMonsterStrength sp armyStrength currentSpellPoints spellPower
       schoolSpellModifier =
     (case Spell_spellPoints sp None of
        None \<Rightarrow> None
      | Some spellCost \<Rightarrow>
          let casts = spell_casts spellCost currentSpellPoints;
              amountModifier = amountModifier casts
          in Some
               (if isAdventure sp then
                  (if sp = DIMENSIONDOOR then 500 * amountModifier
                   else if sp = TOWNGATE \<or> sp = TOWNPORTAL then 250 * amountModifier
                   else if sp = VIEWALL then 500
                   else 0)
                else if isDamage sp then
                  amountModifier *
                    real (unat (Damage sp * word_of_int spellPower
                                  + word_of_int schoolSpellModifier))
                else if isResurrect sp \<or> isMassActions sp \<or> sp = BLIND \<or> sp = PARALYZE then
                  armyStrength * 0.1 * amountModifier
                else if isSummon sp then
                  GetMonsterStrength sp * real (unat (ExtraValue sp)) * real_of_int spellPower
                else armyStrength * 0.04 * amountModifier))"

text \<open>
  The valuation formula in the words of the specification, over unbounded numbers, to
  compare the code with.
\<close>

definition spec_casts :: "nat \<Rightarrow> nat \<Rightarrow> nat" where
  "spec_casts currentSpellPoints cost =
     (if cost > 0 then min 10 (currentSpellPoints div cost) else 0)"

definition spec_amountModifier :: "nat \<Rightarrow> real" where
  "spec_amountModifier casts = (if casts = 1 then 1 else real casts - 0.05 * (real casts)\<^sup>2)"

subsection \<open>Necromancy\<close>

definition GetNecromancyBonus :: "World \<Rightarrow> HeroBase \<Rightarrow> 32 word" where
  "GetNecromancyBonus world hero =
     (let shrineCount = GetCountNecromancyShrineBuild world (GetColor hero);
          artifactEffect = (if isArtifactBonusPresent hero NECROMANCY_SKILL then 1 else 0)
      in min 7 (shrineCount + artifactEffect))"

definition GetNecromancyPercent :: "World \<Rightarrow> HeroBase \<Rightarrow> 32 word" where
  "GetNecromancyPercent world hero =
     (let percent = GetSecondaryValues hero NECROMANCY;
          percent = percent + 10 * GetNecromancyBonus world hero
      in min percent 100)"


section \<open>Auxiliary notions and sample inputs\<close>

text \<open>
  An entry is first of its kind when no earlier slot holds the same kind. This is the
  invariant the mutators keep for the valid entries.
\<close>

definition first_of_kind :: "SecSkills \<Rightarrow> bool" where
  "first_of_kind ss \<longleftrightarrow>
     (\<forall>i<length ss. isValid (ss ! i) \<longrightarrow> (\<forall>j<i. Skill (ss ! j) \<noteq> Skill (ss ! i)))"

text \<open>
  The queue \<open>SecondaryPriorityFromRace\<close> builds before it draws: the kinds of
  \<open>secskills\<close> that are not excluded, each with its race weight.
\<close>

definition candidates :: "skill_stats \<Rightarrow> int \<Rightarrow> int list \<Rightarrow> Queue" where
  "candidates gs race exclude =
     map (\<lambda>skill. (skill, SecondaryGetWeightSkillFromRace gs race skill))
         (filter (\<lambda>skill. skill \<notin> set exclude) secskills)"


definition single_weight_table :: "int \<Rightarrow> secondary_t" where
  "single_weight_table k =
     \<lparr> pathfinding = (if k = PATHFINDING then 1 else 0),
       archery = (if k = ARCHERY then 1 else 0),
       logistics = (if k = LOGISTICS then 1 else 0),
       scouting = (if k = SCOUTING then 1 else 0),
       diplomacy = (if k = DIPLOMACY then 1 else 0),
       navigation = (if k = NAVIGATION then 1 else 0),
       leadership = (if k = LEADERSHIP then 1 else 0),
       wisdom = (if k = WISDOM then 1 else 0),
       mysticism = (if k = MYSTICISM then 1 else 0),
       luck = (if k = LUCK then 1 else 0),
       ballistics = (if k = BALLISTICS then 1 else 0),
       eagleeye = (if k = EAGLEEYE then 1 else 0),
       necromancy = (if k = NECROMANCY then 1 else 0),
       estates = (if k = ESTATES then 1 else 0),
       offense = (if k = OFFENSE then 1 else 0),
       air_magic = (if k = AIRMAGIC then 1 else 0),
       armorer = (if k = ARMORER then 1 else 0),
       artillery = (if k = ARTILLERY then 1 else 0),
       earth_magic = (if k = EARTHMAGIC then 1 else 0),
       fire_magic = (if k = FIREMAGIC then 1 else 0),
       first_aid = (if k = FIRSTAID then 1 else 0),
       intelligence = (if k = INTELLIGENCE then 1 else 0),
       learning = (if k = LEARNING then 1 else 0),
       resistance = (if k = RESISTANCE then 1 else 0),
       scholar = (if k = SCHOLAR then 1 else 0),
       sorcery = (if k = SORCERY then 1 else 0),
       tactics = (if k = TACTICS then 1 else 0),
       water_magic = (if k = WATERMAGIC then 1 else 0) \<rparr>"

definition single_weight_stats :: "int \<Rightarrow> skill_stats" where
  "single_weight_stats k race = Some \<lparr> mature_secondary = single_weight_table k \<rparr>"

definition uniform_weight_table :: secondary_t where
  "uniform_weight_table =
     \<lparr> pathfinding = 10, archery = 10, logistics = 10, scouting = 10, diplomacy = 10,
       navigation = 10, leadership = 10, wisdom = 10, mysticism = 10, luck = 10,
       ballistics = 10, eagleeye = 10, necromancy = 10, estates = 10, offense = 10,
       air_magic = 10, armorer = 10, artillery = 10, earth_magic = 10, fire_magic = 10,
       first_aid = 10, intelligence = 10, learning = 10, resistance = 10, scholar = 10,
       sorcery = 10, tactics = 10, water_magic = 10 \<rparr>"

definition uniform_stats :: skill_stats where
  "uniform_stats race = Some \<lparr> mature_secondary = uniform_weight_table \<rparr>"

definition rnd_zero :: seed_map where
  "rnd_zero seed totalWeight = 0"



definition ex_state_reserved :: SecSkills where
  "ex_state_reserved =
     [Secondary PATHFINDING Level_BASIC, Secondary ARCHERY Level_EXPERT,
      Secondary LOGISTICS Level_ADVANCED, Secondary_default,
      Secondary SCOUTING Level_BASIC, Secondary DIPLOMACY Level_BASIC,
      Secondary NAVIGATION Level_EXPERT, Secondary LEADERSHIP Level_BASIC]"

definition ex_state_full :: SecSkills where
  "ex_state_full =
     [Secondary PATHFINDING Level_BASIC, Secondary ARCHERY Level_EXPERT,
      Secondary LOGISTICS Level_ADVANCED, Secondary WISDOM Level_BASIC,
      Secondary SCOUTING Level_BASIC, Secondary DIPLOMACY Level_BASIC,
      Secondary NAVIGATION Level_EXPERT, Secondary LEADERSHIP Level_BASIC]"

definition ex_ops_fill :: "skill_op list" where
  "ex_ops_fill = [OpFillMax (Secondary ARCHERY Level_BASIC)]"

definition ex_ops_good :: "skill_op list" where
  "ex_ops_good =
     [OpAddSkill (Secondary ARCHERY Level_BASIC), OpFillMax Secondary_default,
      OpAddSkill (Secondary LUCK Level_EXPERT), OpAddSkill (Secondary ARCHERY Level_ADVANCED)]"

definition ex_store :: store where
  "ex_store a =
     (if a = 0 then Secondary LEADERSHIP Level_EXPERT
      else if a = 1 then Secondary ARCHERY Level_BASIC
      else Secondary_default)"

text \<open>Casters, a world and a monster strength estimate.\<close>

definition unit_strength :: "spell \<Rightarrow> real" where
  "unit_strength sp = 1"

definition earth_basic :: "school \<Rightarrow> SkillLevel" where
  "earth_basic s = (if s = EARTH_MAGIC then Basic else None_level)"

definition no_percent :: "ArtifactBonusType \<Rightarrow> int list" where
  "no_percent t = []"

definition half_percent :: "ArtifactBonusType \<Rightarrow> int list" where
  "half_percent t = [50]"

definition no_artifact :: "ArtifactBonusType \<Rightarrow> bool" where
  "no_artifact t = False"

definition necromancy_artifact :: "ArtifactBonusType \<Rightarrow> bool" where
  "necromancy_artifact t = (t = NECROMANCY_SKILL)"

definition no_values :: "int \<Rightarrow> 32 word" where
  "no_values skill = 0"

definition necromancy_30 :: "int \<Rightarrow> 32 word" where
  "necromancy_30 skill = (if skill = NECROMANCY then 30 else 0)"

definition hero_earth_basic :: HeroBase where
  "hero_earth_basic =
     \<lparr> GetColor = 1, schoolLevel = earth_basic, getTotalArtifactMultipliedPercent = no_percent,
       isArtifactBonusPresent = no_artifact, GetSecondaryValues = no_values \<rparr>"

definition hero_necromancer :: HeroBase where
  "hero_necromancer =
     \<lparr> GetColor = 1, schoolLevel = earth_basic, getTotalArtifactMultipliedPercent = half_percent,
       isArtifactBonusPresent = necromancy_artifact, GetSecondaryValues = necromancy_30 \<rparr>"

definition three_shrines :: "int \<Rightarrow> 32 word" where
  "three_shrines color = 3"

definition world_three_shrines :: World where
  "world_three_shrines = \<lparr> GetCountNecromancyShrineBuild = three_shrines \<rparr>"


definition max_shrines :: "int \<Rightarrow> 32 word" where
  "max_shrines color = 4294967295"

definition world_max_shrines :: World where
  "world_max_shrines = \<lparr> GetCountNecromancyShrineBuild = max_shrines \<rparr>"

section \<open>Properties of the skill state\<close>

lemmas Level_defs = Level_NONE_def Level_BASIC_def Level_ADVANCED_def Level_EXPERT_def

lemmas Secondary_defs =
  UNKNOWN_def PATHFINDING_def ARCHERY_def LOGISTICS_def SCOUTING_def DIPLOMACY_def
  NAVIGATION_def LEADERSHIP_def WISDOM_def MYSTICISM_def LUCK_def BALLISTICS_def
  EAGLEEYE_def NECROMANCY_def ESTATES_def OFFENSE_def AIRMAGIC_def ARMORER_def
  ARTILLERY_def EARTHMAGIC_def FIREMAGIC_def FIRSTAID_def INTELLIGENCE_def LEARNING_def
  RESISTANCE_def SCHOLAR_def SORCERY_def TACTICS_def WATERMAGIC_def

subsection \<open>Searching the slots\<close>

lemma find_if_Some:
  "find_if P xs = Some i \<Longrightarrow> i < length xs \<and> P (xs ! i) \<and> (\<forall>j<i. \<not> P (xs ! j))"
proof (induction xs arbitrary: i)
  case Nil
  then show ?case by simp
next
  case (Cons x xs)
  show ?case
  proof (cases "P x")
    case True
    with Cons.prems show ?thesis by simp
  next
    case False
    with Cons.prems obtain k where k: "find_if P xs = Some k" "i = Suc k"
      by (auto split: option.splits)
    from Cons.IH [OF k(1)] False k(2) show ?thesis
      by (auto simp: nth_Cons split: nat.splits)
  qed
qed

lemma find_if_None: "find_if P xs = None \<longleftrightarrow> (\<forall>x\<in>set xs. \<not> P x)"
  by (induction xs) (auto split: option.splits)

subsection \<open>Capacity and distinct kinds\<close>

lemma distinct_map_filter_nth:
  "(\<forall>i j. i < j \<and> j < length xs \<and> P (xs ! i) \<and> P (xs ! j) \<longrightarrow> f (xs ! i) \<noteq> f (xs ! j))
   \<Longrightarrow> distinct (map f (filter P xs))"
proof (induction xs)
  case Nil
  then show ?case by simp
next
  case (Cons x xs)
  have tl: "\<forall>i j. i < j \<and> j < length xs \<and> P (xs ! i) \<and> P (xs ! j) \<longrightarrow> f (xs ! i) \<noteq> f (xs ! j)"
  proof (intro allI impI)
    fix i j assume "i < j \<and> j < length xs \<and> P (xs ! i) \<and> P (xs ! j)"
    then have "Suc i < Suc j \<and> Suc j < length (x # xs) \<and> P ((x # xs) ! Suc i) \<and> P ((x # xs) ! Suc j)"
      by simp
    with Cons.prems have "f ((x # xs) ! Suc i) \<noteq> f ((x # xs) ! Suc j)" by blast
    then show "f (xs ! i) \<noteq> f (xs ! j)" by simp
  qed
  have hd: "f x \<noteq> f y" if "P x" "y \<in> set xs" "P y" for y
  proof -
    from that(2) obtain k where k: "k < length xs" "xs ! k = y" by (auto simp: in_set_conv_nth)
    then have "0 < Suc k \<and> Suc k < length (x # xs) \<and> P ((x # xs) ! 0) \<and> P ((x # xs) ! Suc k)"
      using that by simp
    with Cons.prems have "f ((x # xs) ! 0) \<noteq> f ((x # xs) ! Suc k)" by blast
    with k show ?thesis by simp
  qed
  from Cons.IH [OF tl] hd show ?case by auto
qed

lemma first_of_kind_distinct: "first_of_kind ss \<Longrightarrow> distinct (valid_kinds ss)"
  unfolding valid_kinds_def first_of_kind_def
  by (rule distinct_map_filter_nth) auto

lemma Skill_SetLevel [simp]: "Skill (SetLevel e l) = Skill e"
  by (simp add: SetLevel_def)

lemma first_of_kind_AddSkill: "first_of_kind ss \<Longrightarrow> first_of_kind (AddSkill ss e)"
proof (cases "isValid e")
  case False
  assume "first_of_kind ss" with False show ?thesis by (simp add: AddSkill_def)
next
  case True
  assume inv: "first_of_kind ss"
  show ?thesis
  proof (cases "find_if (\<lambda>v. isSkill v (Skill e)) ss")
    case (Some it)
    note f = find_if_Some [OF Some]
    have eq: "AddSkill ss e = ss[it := SetLevel (ss ! it) (Level e)]"
      using True Some by (simp add: AddSkill_def)
    have sk: "Skill ((ss[it := SetLevel (ss ! it) (Level e)]) ! i) = Skill (ss ! i)" if "i < length ss" for i
      using that by (cases "i = it") simp_all
    show ?thesis
      unfolding eq first_of_kind_def
    proof (intro allI impI)
      fix i j
      assume i: "i < length (ss[it := SetLevel (ss ! it) (Level e)])"
        and v: "isValid (ss[it := SetLevel (ss ! it) (Level e)] ! i)" and j: "j < i"
      from i have il: "i < length ss" by simp
      show "Skill (ss[it := SetLevel (ss ! it) (Level e)] ! j) \<noteq> Skill (ss[it := SetLevel (ss ! it) (Level e)] ! i)"
      proof (cases "i = it")
        case True
        with f j il show ?thesis by (auto simp: sk isSkill_def)
      next
        case False
        with v il have "isValid (ss ! i)" by simp
        with inv il j have "Skill (ss ! j) \<noteq> Skill (ss ! i)" by (simp add: first_of_kind_def)
        with il j show ?thesis by (simp add: sk)
      qed
    qed
  next
    case None
    then have nokind: "\<forall>x\<in>set ss. Skill x \<noteq> Skill e" by (auto simp: find_if_None isSkill_def)
    show ?thesis
    proof (cases "find_if (\<lambda>v. \<not> isValid v) ss")
      case (Some it)
      note f = find_if_Some [OF Some]
      have eq: "AddSkill ss e = ss[it := e]"
        using True None Some by (cases e) (simp add: AddSkill_def Set_sec_def)
      show ?thesis
        unfolding eq first_of_kind_def
      proof (intro allI impI)
        fix i j
        assume i: "i < length (ss[it := e])" and v: "isValid (ss[it := e] ! i)" and j: "j < i"
        from i have il: "i < length ss" by simp
        show "Skill (ss[it := e] ! j) \<noteq> Skill (ss[it := e] ! i)"
        proof (cases "i = it")
          case True
          with j il nokind show ?thesis by (auto simp: nth_list_update)
        next
          case False
          with v il have vi: "isValid (ss ! i)" by simp
          with inv il j have ne: "Skill (ss ! j) \<noteq> Skill (ss ! i)" by (simp add: first_of_kind_def)
          show ?thesis
          proof (cases "j = it")
            case True
            with False il j nokind show ?thesis by (auto simp: nth_list_update)
          next
            case jf: False
            with False il j ne show ?thesis by (simp add: nth_list_update)
          qed
        qed
      qed
    next
      case None2: None
      show ?thesis
      proof (cases "length ss < HEROESMAXSKILL")
        case False
        with True None None2 inv show ?thesis by (simp add: AddSkill_def)
      next
        case lt: True
        have eq: "AddSkill ss e = ss @ [e]"
          using True None None2 lt by (simp add: AddSkill_def)
        show ?thesis
          unfolding eq first_of_kind_def
        proof (intro allI impI)
          fix i j
          assume i: "i < length (ss @ [e])" and v: "isValid ((ss @ [e]) ! i)" and j: "j < i"
          show "Skill ((ss @ [e]) ! j) \<noteq> Skill ((ss @ [e]) ! i)"
          proof (cases "i < length ss")
            case True
            with inv v j show ?thesis by (simp add: first_of_kind_def nth_append)
          next
            case False
            with i have "i = length ss" by simp
            with j nokind show ?thesis by (simp add: nth_append)
          qed
        qed
      qed
    qed
  qed
qed

lemma first_of_kind_FillMax:
  "first_of_kind ss \<Longrightarrow> \<not> isValid e \<Longrightarrow> first_of_kind (FillMax ss e)"
  by (auto simp: first_of_kind_def FillMax_def nth_append)

lemma length_AddSkill: "length ss \<le> HEROESMAXSKILL \<Longrightarrow> length (AddSkill ss e) \<le> HEROESMAXSKILL"
  by (auto simp: AddSkill_def split: option.splits)

lemma length_FillMax: "length ss \<le> HEROESMAXSKILL \<Longrightarrow> length (FillMax ss e) \<le> HEROESMAXSKILL"
  by (auto simp: FillMax_def)

lemma length_foldl_ops:
  "length ss \<le> HEROESMAXSKILL \<Longrightarrow> length (foldl apply_skill_op ss ops) \<le> HEROESMAXSKILL"
proof (induction ops arbitrary: ss)
  case Nil
  then show ?case by simp
next
  case (Cons a ops)
  then show ?case by (cases a) (simp_all add: length_AddSkill length_FillMax)
qed

lemma first_of_kind_foldl_ops:
  "first_of_kind ss \<Longrightarrow> \<forall>a\<in>set ops. fill_is_empty a
    \<Longrightarrow> first_of_kind (foldl apply_skill_op ss ops)"
proof (induction ops arbitrary: ss)
  case Nil
  then show ?case by simp
next
  case (Cons a ops)
  then show ?case by (cases a) (simp_all add: first_of_kind_AddSkill first_of_kind_FillMax)
qed

lemma Count_le_length: "Count ss \<le> length ss"
  by (simp add: Count_def)

text \<open>
  C2, as amended. For every sequence of \<open>AddSkill\<close> and \<open>FillMax\<close> calls run from the
  empty state, the number of valid entries never exceeds 8; and when every \<open>FillMax\<close>
  call of the sequence is given an entry that is not valid (such as the default, empty
  entry), no two valid entries of the resulting state share a kind.
\<close>

theorem capacity_and_distinct_kinds:
  "Count (run_skill_ops ops) \<le> 8 \<and>
   ((\<forall>a\<in>set ops. fill_is_empty a) \<longrightarrow> distinct (valid_kinds (run_skill_ops ops)))"
proof -
  have "length (run_skill_ops ops) \<le> HEROESMAXSKILL"
    unfolding run_skill_ops_def by (rule length_foldl_ops) simp
  then have c: "Count (run_skill_ops ops) \<le> 8"
    using Count_le_length [of "run_skill_ops ops"] by (simp add: HEROESMAXSKILL_def)
  have "first_of_kind []" by (simp add: first_of_kind_def)
  then have "(\<forall>a\<in>set ops. fill_is_empty a) \<longrightarrow> distinct (valid_kinds (run_skill_ops ops))"
    unfolding run_skill_ops_def
    by (auto intro: first_of_kind_distinct first_of_kind_foldl_ops)
  with c show ?thesis by simp
qed

text \<open>
  A run that learns Archery, pads the state with empty entries, learns Luck into the
  first empty slot and then raises Archery in place.
\<close>

lemma ex_ops_good_run:
  "run_skill_ops ex_ops_good =
     [Secondary ARCHERY Level_ADVANCED, Secondary LUCK Level_EXPERT, Secondary_default,
      Secondary_default, Secondary_default, Secondary_default, Secondary_default,
      Secondary_default]"
  by code_simp

theorem capacity_and_distinct_kinds_witness:
  "list_all fill_is_empty ex_ops_good \<and>
   Count (run_skill_ops ex_ops_good) \<le> 8 \<and>
   distinct (valid_kinds (run_skill_ops ex_ops_good)) \<and>
   valid_kinds (run_skill_ops ex_ops_good) = [ARCHERY, LUCK]"
proof -
  have h: "\<forall>a\<in>set ex_ops_good. fill_is_empty a"
    by (simp add: ex_ops_good_def isValid_def Secondary_default_def)
  have v: "valid_kinds (run_skill_ops ex_ops_good) = [ARCHERY, LUCK]"
    unfolding ex_ops_good_run
    by (simp add: valid_kinds_def isValid_def Secondary_default_def Secondary_defs Level_defs)
  from h v capacity_and_distinct_kinds [of ex_ops_good] show ?thesis
    by (simp add: list_all_iff)
qed

text \<open>
  C2 as stated fails: \<open>FillMax\<close> repeats the entry it is given into every remaining
  slot, so a single call with a valid entry on the empty state leaves eight valid
  entries of one kind.
\<close>

theorem FillMax_repeats_valid_kind:
  "run_skill_ops ex_ops_fill = replicate 8 (Secondary ARCHERY Level_BASIC) \<and>
   Count (run_skill_ops ex_ops_fill) = 8 \<and>
   \<not> distinct (valid_kinds (run_skill_ops ex_ops_fill))"
  by (simp add: ex_ops_fill_def run_skill_ops_def FillMax_def HEROESMAXSKILL_def valid_kinds_def
      Count_def isValid_def Secondary_defs Level_defs eval_nat_numeral)


section \<open>Properties of the level-up proposals\<close>

subsection \<open>The table of kinds and the weight tables\<close>

lemma secskills_set:
  "k \<in> set secskills \<longleftrightarrow> 1 \<le> k \<and> k \<le> 28"
  unfolding secskills_def Secondary_defs by (simp; presburger)

lemma single_weight:
  "j \<in> set secskills \<Longrightarrow>
   SecondaryGetWeightSkillFromRace (single_weight_stats k) race j = (if j = k then 1 else 0)"
  unfolding secskills_def
  by (auto simp: SecondaryGetWeightSkillFromRace_def single_weight_stats_def single_weight_table_def
      Secondary_defs)

subsection \<open>The weighted selector\<close>

text \<open>
  The selector returns the sentinel or an entry of positive weight; when the total
  weight is not 0 it returns an entry of positive weight, whatever the seed.
\<close>

lemma Queue_first_exceeding_cases:
  "Queue_first_exceeding q r = Queue_none \<or>
   (\<exists>w. (Queue_first_exceeding q r, w) \<in> set q \<and> 0 < w)"
proof (induction q r rule: Queue_first_exceeding.induct)
  case (1 r)
  show ?case by simp
next
  case (2 item weight q r)
  show ?case
  proof (cases "r < weight")
    case True
    then show ?thesis by auto
  next
    case False
    with 2 show ?thesis by auto
  qed
qed

lemma Queue_first_exceeding_hit:
  "r < sum_list (map snd q) \<Longrightarrow> \<exists>w. (Queue_first_exceeding q r, w) \<in> set q \<and> 0 < w"
proof (induction q r rule: Queue_first_exceeding.induct)
  case (1 r)
  then show ?case by simp
next
  case (2 item weight q r)
  show ?case
  proof (cases "r < weight")
    case True
    then show ?thesis by auto
  next
    case False
    with 2 have "r - weight < sum_list (map snd q)" by simp
    with 2 False show ?thesis by auto
  qed
qed

lemma Queue_GetWithSeed_cases:
  "Queue_GetWithSeed rnd q seed = Queue_none \<or>
   (\<exists>w. (Queue_GetWithSeed rnd q seed, w) \<in> set q \<and> 0 < w)"
  unfolding Queue_GetWithSeed_def Let_def
  using Queue_first_exceeding_cases by auto

lemma Queue_GetWithSeed_hit:
  "sum_list (map snd q) \<noteq> 0 \<Longrightarrow>
   \<exists>w. (Queue_GetWithSeed rnd q seed, w) \<in> set q \<and> 0 < w"
proof -
  assume ne: "sum_list (map snd q) \<noteq> 0"
  then have "0 < sum_list (map snd q)"
    by (rule neq0_conv [THEN iffD1])
  then have "rnd seed (sum_list (map snd q)) mod sum_list (map snd q) < sum_list (map snd q)"
    by (rule mod_less_divisor)
  from Queue_first_exceeding_hit [OF this] ne show ?thesis
    unfolding Queue_GetWithSeed_def Let_def by presburger
qed

lemma parts_foldl:
  "foldl (\<lambda>parts skill. if skill \<notin> set exclude then Queue_Push parts skill (W skill) else parts)
         acc xs
   = acc @ map (\<lambda>skill. (skill, W skill)) (filter (\<lambda>skill. skill \<notin> set exclude) xs)"
  by (induction xs arbitrary: acc) (simp_all add: Queue_Push_def)

subsection \<open>The pick among the kinds that are not excluded\<close>

lemma SecondaryPriorityFromRace_alt:
  "SecondaryPriorityFromRace gs rnd race exclude seed =
     (if candidates gs race exclude \<noteq> [] then Queue_GetWithSeed rnd (candidates gs race exclude) seed
      else UNKNOWN)"
  unfolding SecondaryPriorityFromRace_def Let_def parts_foldl candidates_def Queue_Size_def
  by simp

lemma SecondaryPriorityFromRace_cases:
  "SecondaryPriorityFromRace gs rnd race exclude seed = UNKNOWN \<or>
   (SecondaryPriorityFromRace gs rnd race exclude seed \<in> set secskills \<and>
    SecondaryPriorityFromRace gs rnd race exclude seed \<notin> set exclude \<and>
    0 < SecondaryGetWeightSkillFromRace gs race (SecondaryPriorityFromRace gs rnd race exclude seed))"
proof (cases "candidates gs race exclude = []")
  case True
  then show ?thesis by (simp add: SecondaryPriorityFromRace_alt)
next
  case False
  then have eq: "SecondaryPriorityFromRace gs rnd race exclude seed
                 = Queue_GetWithSeed rnd (candidates gs race exclude) seed"
    by (simp add: SecondaryPriorityFromRace_alt)
  from Queue_GetWithSeed_cases [of rnd "candidates gs race exclude" seed]
  show ?thesis
    unfolding eq by (auto simp: candidates_def Queue_none_def UNKNOWN_def)
qed

lemma SecondaryPriorityFromRace_single:
  assumes "k \<in> set secskills" "k \<notin> set exclude"
  shows "SecondaryPriorityFromRace (single_weight_stats k) rnd race exclude seed = k"
proof -
  let ?q = "candidates (single_weight_stats k) race exclude"
  from assms have mem: "(k, 1) \<in> set ?q"
    by (auto simp: candidates_def single_weight)
  then have ne: "?q \<noteq> []" by auto
  from mem have "\<exists>x\<in>set ?q. snd x \<noteq> 0" by force
  then have "sum_list (map snd ?q) \<noteq> 0" by simp
  from Queue_GetWithSeed_hit [OF this, of rnd seed]
  obtain w where "(Queue_GetWithSeed rnd ?q seed, w) \<in> set ?q" "0 < w" by blast
  then have "Queue_GetWithSeed rnd ?q seed = k"
    by (auto simp: candidates_def single_weight split: if_splits)
  with ne show ?thesis by (simp add: SecondaryPriorityFromRace_alt)
qed


subsection \<open>Setters and the kinds of the two proposals\<close>

lemma Skill_SetSkill_secskills:
  "k \<in> set secskills \<Longrightarrow> Skill (SetSkill e k) = k"
  by (simp add: secskills_set SetSkill_def UNKNOWN_def MAXSECONDARYSKILL_def)

lemma Skill_SetSkill_UNKNOWN: "Skill (SetSkill e UNKNOWN) = UNKNOWN"
  by (simp add: SetSkill_def)

lemma Level_SetSkill [simp]: "Level (SetSkill e k) = Level e"
  by (simp add: SetSkill_def)

lemma Skill_NextLevel [simp]: "Skill (NextLevel e) = Skill e"
  by (simp add: NextLevel_def)

lemma Skill_SetSkill_pick:
  "Skill (SetSkill e (SecondaryPriorityFromRace gs rnd race exclude seed))
   = SecondaryPriorityFromRace gs rnd race exclude seed"
  using SecondaryPriorityFromRace_cases [of gs rnd race exclude seed]
  by (auto simp: Skill_SetSkill_secskills Skill_SetSkill_UNKNOWN)

lemma FindSkillsForLevelUp_kinds:
  "Skill (fst (FindSkillsForLevelUp gs rnd this race seed1 seed2 sec1 sec2))
     = SecondaryPriorityFromRace gs rnd race (exclude_skills this) seed1"
  "SecondaryPriorityFromRace gs rnd race (exclude_skills this) seed1 \<noteq> UNKNOWN \<Longrightarrow>
   Skill (snd (FindSkillsForLevelUp gs rnd this race seed1 seed2 sec1 sec2))
     = SecondaryPriorityFromRace gs rnd race
         (exclude_skills this @ [SecondaryPriorityFromRace gs rnd race (exclude_skills this) seed1])
         seed2"
  "SecondaryPriorityFromRace gs rnd race (exclude_skills this) seed1 = UNKNOWN \<Longrightarrow>
   FindSkillsForLevelUp gs rnd this race seed1 seed2 sec1 sec2
     = (Secondary UNKNOWN (Level sec1), sec2)"
  unfolding FindSkillsForLevelUp_def Let_def
  by (simp_all add: Skill_SetSkill_pick Skill_SetSkill_UNKNOWN) (simp add: SetSkill_def)


lemma second_kind_cases:
  "Skill (fst (FindSkillsForLevelUp gs rnd this race seed1 seed2 sec1 sec2)) = UNKNOWN \<and>
   snd (FindSkillsForLevelUp gs rnd this race seed1 seed2 sec1 sec2) = sec2 \<or>
   Skill (fst (FindSkillsForLevelUp gs rnd this race seed1 seed2 sec1 sec2)) \<noteq> UNKNOWN \<and>
   (Skill (snd (FindSkillsForLevelUp gs rnd this race seed1 seed2 sec1 sec2)) = UNKNOWN \<or>
    Skill (snd (FindSkillsForLevelUp gs rnd this race seed1 seed2 sec1 sec2)) \<in> set secskills \<and>
    Skill (snd (FindSkillsForLevelUp gs rnd this race seed1 seed2 sec1 sec2))
      \<notin> set (exclude_skills this) \<and>
    Skill (snd (FindSkillsForLevelUp gs rnd this race seed1 seed2 sec1 sec2))
      \<noteq> Skill (fst (FindSkillsForLevelUp gs rnd this race seed1 seed2 sec1 sec2)))"
proof -
  let ?excl = "exclude_skills this"
  let ?p1 = "SecondaryPriorityFromRace gs rnd race ?excl seed1"
  let ?p2 = "SecondaryPriorityFromRace gs rnd race (?excl @ [?p1]) seed2"
  let ?r = "FindSkillsForLevelUp gs rnd this race seed1 seed2 sec1 sec2"
  have s1: "Skill (fst ?r) = ?p1" by (rule FindSkillsForLevelUp_kinds(1))
  show ?thesis
  proof (cases "?p1 = UNKNOWN")
    case True
    then have "?r = (Secondary UNKNOWN (Level sec1), sec2)"
      by (rule FindSkillsForLevelUp_kinds(3))
    then show ?thesis by simp
  next
    case False
    then have s2: "Skill (snd ?r) = ?p2" by (rule FindSkillsForLevelUp_kinds(2))
    from SecondaryPriorityFromRace_cases [of gs rnd race "?excl @ [?p1]" seed2]
    have "?p2 = UNKNOWN \<or> ?p2 \<in> set secskills \<and> ?p2 \<notin> set ?excl \<and> ?p2 \<noteq> ?p1"
      by auto
    with False show ?thesis unfolding s1 s2 by blast
  qed
qed

lemma first_kind_cases:
  "Skill (fst (FindSkillsForLevelUp gs rnd this race seed1 seed2 sec1 sec2)) = UNKNOWN \<or>
   Skill (fst (FindSkillsForLevelUp gs rnd this race seed1 seed2 sec1 sec2)) \<in> set secskills \<and>
   Skill (fst (FindSkillsForLevelUp gs rnd this race seed1 seed2 sec1 sec2))
     \<notin> set (exclude_skills this)"
  unfolding FindSkillsForLevelUp_kinds(1)
  using SecondaryPriorityFromRace_cases [of gs rnd race "exclude_skills this" seed1] by blast









subsection \<open>The exclusion list\<close>

text \<open>
  With fewer than 28 valid entries some kind of \<open>secskills\<close> has no valid entry; such a
  kind is at level NONE and is no Expert entry's kind.
\<close>

lemma secskills_distinct: "distinct secskills"
  unfolding secskills_def Secondary_defs by simp

lemma secskills_card: "card (set secskills) = 28"
  using distinct_card [OF secskills_distinct] by (simp add: secskills_def)

lemma secskills_not_UNKNOWN: "k \<in> set secskills \<Longrightarrow> k \<noteq> UNKNOWN"
  by (simp add: secskills_set UNKNOWN_def)

lemma Count_missing_kind:
  assumes "Count this < 28"
  shows "\<exists>k\<in>set secskills. k \<notin> Skill ` set (filter isValid this)"
proof (rule ccontr)
  assume "\<not> ?thesis"
  then have "set secskills \<subseteq> Skill ` set (filter isValid this)" by blast
  then have "card (set secskills) \<le> card (Skill ` set (filter isValid this))"
    by (simp add: card_mono)
  also have "\<dots> \<le> card (set (filter isValid this))" by (rule card_image_le) simp
  also have "\<dots> \<le> length (filter isValid this)" by (rule card_length)
  finally show False using assms by (simp add: secskills_card Count_def)
qed

lemma GetLevel_no_valid_entry:
  assumes "k \<noteq> UNKNOWN" and "k \<notin> Skill ` set (filter isValid this)"
  shows "GetLevel this k = Level_NONE"
proof (cases "find_if (\<lambda>v. isSkill v k) this")
  case None
  then show ?thesis by (simp add: GetLevel_def)
next
  case (Some it)
  from find_if_Some [OF Some] have it: "it < length this" "Skill (this ! it) = k"
    by (simp_all add: isSkill_def)
  have "\<not> isValid (this ! it)"
  proof
    assume "isValid (this ! it)"
    with it have "k \<in> Skill ` set (filter isValid this)" by force
    with assms(2) show False by contradiction
  qed
  with it assms(1) have "Level (this ! it) = Level_NONE" by (simp add: isValid_def)
  with Some show ?thesis by (simp add: GetLevel_def)
qed

lemma not_expert_no_valid_entry:
  assumes "k \<noteq> UNKNOWN" and "k \<notin> Skill ` set (filter isValid this)"
  shows "\<not> (\<exists>it\<in>set this. Level it = Level_EXPERT \<and> Skill it = k)"
proof
  assume "\<exists>it\<in>set this. Level it = Level_EXPERT \<and> Skill it = k"
  then obtain it where "it \<in> set this" "Level it = Level_EXPERT" "Skill it = k" by blast
  with assms(1) have "it \<in> set (filter isValid this)" "Skill it = k"
    by (simp_all add: isValid_def Level_defs)
  with assms(2) show False by blast
qed

lemma exclude_skills_iff:
  "skill \<in> set (exclude_skills this) \<longleftrightarrow>
     (\<exists>it\<in>set this. Level it = Level_EXPERT \<and> Skill it = skill) \<or>
     (HEROESMAXSKILL \<le> Count this \<and> skill \<in> set secskills \<and> GetLevel this skill = Level_NONE)"
  by (auto simp: exclude_skills_def)

lemma valid_kinds_set: "set (valid_kinds this) = Skill ` set (filter isValid this)"
  by (simp add: valid_kinds_def)

lemma GetLevel_known:
  assumes "GetLevel this k \<noteq> Level_NONE" and "k \<noteq> UNKNOWN"
  shows "k \<in> set (valid_kinds this)"
proof (cases "find_if (\<lambda>v. isSkill v k) this")
  case None
  with assms(1) show ?thesis by (simp add: GetLevel_def)
next
  case (Some it)
  from find_if_Some [OF Some] have it: "it < length this" "Skill (this ! it) = k"
    by (simp_all add: isSkill_def)
  from Some assms(1) have "Level (this ! it) \<noteq> Level_NONE" by (simp add: GetLevel_def)
  with it assms(2) have "isValid (this ! it)" by (simp add: isValid_def)
  with it have "this ! it \<in> set (filter isValid this)" by simp
  with it(2) show ?thesis unfolding valid_kinds_set by blast
qed

lemma full_roster_candidate:
  assumes "HEROESMAXSKILL \<le> Count this" and "k \<in> set secskills"
    and "k \<notin> set (exclude_skills this)"
  shows "k \<in> set (valid_kinds this) \<and> GetLevel this k \<noteq> Level_NONE"
proof -
  from assms have l: "GetLevel this k \<noteq> Level_NONE" by (auto simp: exclude_skills_iff)
  from assms(2) have "k \<noteq> UNKNOWN" by (rule secskills_not_UNKNOWN)
  with l show ?thesis by (simp add: GetLevel_known)
qed

lemma new_kind_candidate:
  assumes "Count this < HEROESMAXSKILL"
  shows "\<exists>skill\<in>set secskills. skill \<notin> set (valid_kinds this) \<and>
           GetLevel this skill = Level_NONE \<and> skill \<notin> set (exclude_skills this)"
proof -
  from assms have "Count this < 28" by (simp add: HEROESMAXSKILL_def)
  from Count_missing_kind [OF this]
  obtain k where k: "k \<in> set secskills" "k \<notin> Skill ` set (filter isValid this)" by blast
  from k(1) have nz: "k \<noteq> UNKNOWN" by (rule secskills_not_UNKNOWN)
  have "GetLevel this k = Level_NONE" using nz k(2) by (rule GetLevel_no_valid_entry)
  moreover have "k \<notin> set (exclude_skills this)"
    using not_expert_no_valid_entry [OF nz k(2)] assms by (simp add: exclude_skills_iff)
  ultimately show ?thesis using k by (auto simp: valid_kinds_set)
qed

lemma first_proposal_single_weight:
  assumes "skill \<in> set secskills" "skill \<notin> set (exclude_skills this)"
    and "GetLevel this skill = Level_NONE"
  shows "fst (FindSkillsForLevelUp (single_weight_stats skill) rnd this race seedSkill1 seedSkill2
                sec1 sec2) = Secondary skill Level_BASIC"
proof -
  have pick: "SecondaryPriorityFromRace (single_weight_stats skill) rnd race (exclude_skills this)
                seedSkill1 = skill"
    using assms(1,2) by (rule SecondaryPriorityFromRace_single)
  have sk: "Skill (SetSkill sec1 skill) = skill"
    using assms(1) by (rule Skill_SetSkill_secskills)
  from assms(1) have nz: "skill \<noteq> UNKNOWN" by (rule secskills_not_UNKNOWN)
  show ?thesis
    unfolding FindSkillsForLevelUp_def Let_def pick
    using sk nz assms(3) by (simp add: SetLevel_def NextLevel_def Level_defs)
qed

text \<open>
  C4. The exclusion list holds exactly the kinds of the Expert entries and, when
  \<open>Count()\<close> is at least 8, the kinds of \<open>secskills\<close> at level NONE; every kind at level
  NONE is excluded exactly when \<open>Count()\<close> is at least 8. So, when \<open>Count()\<close> is at
  least 8, every output of \<open>FindSkillsForLevelUp\<close> that names a skill names the kind of
  a valid entry of the state, whose level is not NONE (the only other case is a second
  output that the call left exactly as the caller passed it after a "none" first pick;
  with default-constructed outputs there is no such case). When \<open>Count()\<close> is below 8,
  some kind without a valid entry, at level NONE, can be proposed: with a race table
  that gives weight to that kind alone it is the first proposal, at Basic level, for
  every seed. A state of 8 slots one of which is at level NONE has \<open>Count()\<close> below 8.
\<close>

theorem full_roster_exclusion:
  "(\<forall>skill. skill \<in> set (exclude_skills this) \<longleftrightarrow>
       (\<exists>it\<in>set this. Level it = Level_EXPERT \<and> Skill it = skill) \<or>
       (HEROESMAXSKILL \<le> Count this \<and> skill \<in> set secskills \<and>
        GetLevel this skill = Level_NONE)) \<and>
   ((\<forall>skill\<in>set secskills. GetLevel this skill = Level_NONE
        \<longrightarrow> skill \<in> set (exclude_skills this))
      \<longleftrightarrow> 8 \<le> Count this) \<and>
   (8 \<le> Count this \<longrightarrow>
      (Skill (fst (FindSkillsForLevelUp gs rnd this race seed1 seed2 sec1 sec2)) \<noteq> UNKNOWN \<longrightarrow>
         Skill (fst (FindSkillsForLevelUp gs rnd this race seed1 seed2 sec1 sec2))
           \<in> set (valid_kinds this) \<and>
         GetLevel this (Skill (fst (FindSkillsForLevelUp gs rnd this race seed1 seed2 sec1 sec2)))
           \<noteq> Level_NONE) \<and>
      (Skill (snd (FindSkillsForLevelUp gs rnd this race seed1 seed2 sec1 sec2)) \<noteq> UNKNOWN \<longrightarrow>
         Skill (snd (FindSkillsForLevelUp gs rnd this race seed1 seed2 sec1 sec2))
           \<in> set (valid_kinds this) \<and>
         GetLevel this (Skill (snd (FindSkillsForLevelUp gs rnd this race seed1 seed2 sec1 sec2)))
           \<noteq> Level_NONE \<or>
         Skill (fst (FindSkillsForLevelUp gs rnd this race seed1 seed2 sec1 sec2)) = UNKNOWN \<and>
         snd (FindSkillsForLevelUp gs rnd this race seed1 seed2 sec1 sec2) = sec2) \<and>
      (Skill (fst (FindSkillsForLevelUp gs rnd this race seed1 seed2
                     Secondary_default Secondary_default)) \<noteq> UNKNOWN \<longrightarrow>
         Skill (fst (FindSkillsForLevelUp gs rnd this race seed1 seed2
                       Secondary_default Secondary_default)) \<in> set (valid_kinds this) \<and>
         GetLevel this (Skill (fst (FindSkillsForLevelUp gs rnd this race seed1 seed2
                                      Secondary_default Secondary_default))) \<noteq> Level_NONE) \<and>
      (Skill (snd (FindSkillsForLevelUp gs rnd this race seed1 seed2
                     Secondary_default Secondary_default)) \<noteq> UNKNOWN \<longrightarrow>
         Skill (snd (FindSkillsForLevelUp gs rnd this race seed1 seed2
                       Secondary_default Secondary_default)) \<in> set (valid_kinds this) \<and>
         GetLevel this (Skill (snd (FindSkillsForLevelUp gs rnd this race seed1 seed2
                                      Secondary_default Secondary_default))) \<noteq> Level_NONE)) \<and>
   (Count this < 8 \<longrightarrow>
      (\<exists>skill\<in>set secskills. skill \<notin> set (valid_kinds this) \<and>
         GetLevel this skill = Level_NONE \<and>
         (\<forall>rnd' race' seedSkill1 seedSkill2 out1 out2.
            fst (FindSkillsForLevelUp (single_weight_stats skill) rnd' this race'
                   seedSkill1 seedSkill2 out1 out2)
              = Secondary skill Level_BASIC))) \<and>
   (length this = 8 \<and> (\<exists>it\<in>set this. Level it = Level_NONE) \<longrightarrow> Count this < 8)"
proof (intro conjI allI impI)
  fix skill
  show "skill \<in> set (exclude_skills this) \<longleftrightarrow>
       (\<exists>it\<in>set this. Level it = Level_EXPERT \<and> Skill it = skill) \<or>
       (HEROESMAXSKILL \<le> Count this \<and> skill \<in> set secskills \<and>
        GetLevel this skill = Level_NONE)"
    by (rule exclude_skills_iff)
next
  show "(\<forall>skill\<in>set secskills. GetLevel this skill = Level_NONE
          \<longrightarrow> skill \<in> set (exclude_skills this))
        \<longleftrightarrow> 8 \<le> Count this"
  proof
    assume all: "\<forall>skill\<in>set secskills. GetLevel this skill = Level_NONE
                   \<longrightarrow> skill \<in> set (exclude_skills this)"
    show "8 \<le> Count this"
    proof (rule ccontr)
      assume "\<not> 8 \<le> Count this"
      then have "Count this < HEROESMAXSKILL" by (simp add: HEROESMAXSKILL_def)
      from new_kind_candidate [OF this] all show False by blast
    qed
  next
    assume "8 \<le> Count this"
    then show "\<forall>skill\<in>set secskills. GetLevel this skill = Level_NONE
                 \<longrightarrow> skill \<in> set (exclude_skills this)"
      by (simp add: exclude_skills_iff HEROESMAXSKILL_def)
  qed
next
  assume "8 \<le> Count this"
  then have full: "HEROESMAXSKILL \<le> Count this" by (simp add: HEROESMAXSKILL_def)
  have one: "Skill (fst (FindSkillsForLevelUp gs rnd this race seed1 seed2 o1 o2))
               \<in> set (valid_kinds this) \<and>
             GetLevel this (Skill (fst (FindSkillsForLevelUp gs rnd this race seed1 seed2 o1 o2)))
               \<noteq> Level_NONE"
    if "Skill (fst (FindSkillsForLevelUp gs rnd this race seed1 seed2 o1 o2)) \<noteq> UNKNOWN"
    for o1 o2
    using first_kind_cases [of gs rnd this race seed1 seed2 o1 o2] that
      full_roster_candidate [OF full] by blast
  have two: "Skill (snd (FindSkillsForLevelUp gs rnd this race seed1 seed2 o1 o2))
               \<in> set (valid_kinds this) \<and>
             GetLevel this (Skill (snd (FindSkillsForLevelUp gs rnd this race seed1 seed2 o1 o2)))
               \<noteq> Level_NONE \<or>
             Skill (fst (FindSkillsForLevelUp gs rnd this race seed1 seed2 o1 o2)) = UNKNOWN \<and>
             snd (FindSkillsForLevelUp gs rnd this race seed1 seed2 o1 o2) = o2"
    if "Skill (snd (FindSkillsForLevelUp gs rnd this race seed1 seed2 o1 o2)) \<noteq> UNKNOWN"
    for o1 o2
    using second_kind_cases [of gs rnd this race seed1 seed2 o1 o2] that
      full_roster_candidate [OF full] by blast
  {
    assume "Skill (fst (FindSkillsForLevelUp gs rnd this race seed1 seed2 sec1 sec2)) \<noteq> UNKNOWN"
    from one [OF this]
    show "Skill (fst (FindSkillsForLevelUp gs rnd this race seed1 seed2 sec1 sec2))
           \<in> set (valid_kinds this)"
      and "GetLevel this (Skill (fst (FindSkillsForLevelUp gs rnd this race seed1 seed2 sec1 sec2)))
           \<noteq> Level_NONE"
      by simp_all
  }
  {
    assume "Skill (snd (FindSkillsForLevelUp gs rnd this race seed1 seed2 sec1 sec2)) \<noteq> UNKNOWN"
    from two [OF this]
    show "Skill (snd (FindSkillsForLevelUp gs rnd this race seed1 seed2 sec1 sec2))
           \<in> set (valid_kinds this) \<and>
         GetLevel this (Skill (snd (FindSkillsForLevelUp gs rnd this race seed1 seed2 sec1 sec2)))
           \<noteq> Level_NONE \<or>
         Skill (fst (FindSkillsForLevelUp gs rnd this race seed1 seed2 sec1 sec2)) = UNKNOWN \<and>
         snd (FindSkillsForLevelUp gs rnd this race seed1 seed2 sec1 sec2) = sec2" .
  }
  {
    assume "Skill (fst (FindSkillsForLevelUp gs rnd this race seed1 seed2
                     Secondary_default Secondary_default)) \<noteq> UNKNOWN"
    from one [OF this]
    show "Skill (fst (FindSkillsForLevelUp gs rnd this race seed1 seed2
                       Secondary_default Secondary_default)) \<in> set (valid_kinds this)"
      and "GetLevel this (Skill (fst (FindSkillsForLevelUp gs rnd this race seed1 seed2
                                      Secondary_default Secondary_default))) \<noteq> Level_NONE"
      by simp_all
  }
  {
    assume a: "Skill (snd (FindSkillsForLevelUp gs rnd this race seed1 seed2
                     Secondary_default Secondary_default)) \<noteq> UNKNOWN"
    from two [OF this] a
    show "Skill (snd (FindSkillsForLevelUp gs rnd this race seed1 seed2
                       Secondary_default Secondary_default)) \<in> set (valid_kinds this)"
      and "GetLevel this (Skill (snd (FindSkillsForLevelUp gs rnd this race seed1 seed2
                                      Secondary_default Secondary_default))) \<noteq> Level_NONE"
      by (auto simp: Secondary_default_def)
  }
next
  assume "Count this < 8"
  then have "Count this < HEROESMAXSKILL" by (simp add: HEROESMAXSKILL_def)
  from new_kind_candidate [OF this]
  obtain skill where s: "skill \<in> set secskills" "skill \<notin> set (valid_kinds this)"
    "GetLevel this skill = Level_NONE" "skill \<notin> set (exclude_skills this)" by blast
  from first_proposal_single_weight [OF s(1) s(4) s(3)] s(1,2,3)
  show "\<exists>skill\<in>set secskills. skill \<notin> set (valid_kinds this) \<and>
         GetLevel this skill = Level_NONE \<and>
         (\<forall>rnd' race' seedSkill1 seedSkill2 out1 out2.
            fst (FindSkillsForLevelUp (single_weight_stats skill) rnd' this race'
                   seedSkill1 seedSkill2 out1 out2)
              = Secondary skill Level_BASIC)"
    by blast
next
  assume h: "length this = 8 \<and> (\<exists>it\<in>set this. Level it = Level_NONE)"
  then obtain it where "it \<in> set this" "\<not> isValid it" by (auto simp: isValid_def)
  then have "length (filter isValid this) < length this" by (rule length_filter_less)
  with h show "Count this < 8" by (simp add: Count_def)
qed

text \<open>
  Eight valid entries and every kind with weight 10: the proposals are Pathfinding and
  Logistics, both held already; with weight on Luck alone nothing is proposed. Seven
  skills and one empty slot: Luck is proposed at Basic.
\<close>

lemma ex_state_full_uniform:
  "FindSkillsForLevelUp uniform_stats rnd_zero ex_state_full 0 0 0
          Secondary_default Secondary_default
   = (Secondary PATHFINDING Level_ADVANCED, Secondary LOGISTICS Level_EXPERT)"
  by code_simp

lemma ex_state_reserved_proposal:
  "fst (FindSkillsForLevelUp (single_weight_stats LUCK) rnd_zero ex_state_reserved 0 0 0
          Secondary_default Secondary_default) = Secondary LUCK Level_BASIC"
  by code_simp

lemma ex_state_full_proposal:
  "FindSkillsForLevelUp (single_weight_stats LUCK) rnd_zero ex_state_full 0 0 0
          Secondary_default Secondary_default = (Secondary_default, Secondary_default)"
  by code_simp

theorem full_roster_exclusion_witness:
  "8 \<le> Count ex_state_full \<and>
   FindSkillsForLevelUp uniform_stats rnd_zero ex_state_full 0 0 0
       Secondary_default Secondary_default
     = (Secondary PATHFINDING Level_ADVANCED, Secondary LOGISTICS Level_EXPERT) \<and>
   PATHFINDING \<noteq> UNKNOWN \<and> LOGISTICS \<noteq> UNKNOWN \<and>
   PATHFINDING \<in> set (valid_kinds ex_state_full) \<and>
   LOGISTICS \<in> set (valid_kinds ex_state_full) \<and>
   GetLevel ex_state_full LUCK = Level_NONE \<and> LUCK \<in> set secskills \<and>
   LUCK \<in> set (exclude_skills ex_state_full) \<and>
   FindSkillsForLevelUp (single_weight_stats LUCK) rnd_zero ex_state_full 0 0 0
       Secondary_default Secondary_default = (Secondary_default, Secondary_default) \<and>
   length ex_state_reserved = 8 \<and> Secondary_default \<in> set ex_state_reserved \<and>
   Level Secondary_default = Level_NONE \<and> Count ex_state_reserved < 8 \<and>
   LUCK \<notin> set (valid_kinds ex_state_reserved) \<and>
   fst (FindSkillsForLevelUp (single_weight_stats LUCK) rnd_zero ex_state_reserved 0 0 0
          Secondary_default Secondary_default) = Secondary LUCK Level_BASIC"
proof -
  have a: "length ex_state_reserved = 8" "Secondary_default \<in> set ex_state_reserved"
    "Level Secondary_default = Level_NONE"
    by (simp_all add: ex_state_reserved_def Secondary_default_def)
  have b: "8 \<le> Count ex_state_full" "LUCK \<in> set secskills"
    "GetLevel ex_state_full LUCK = Level_NONE" "LUCK \<notin> set (valid_kinds ex_state_reserved)"
    "PATHFINDING \<noteq> UNKNOWN" "LOGISTICS \<noteq> UNKNOWN"
    by code_simp+
  note full = full_roster_exclusion [of ex_state_full uniform_stats rnd_zero 0 0 0
      Secondary_default Secondary_default]
  note res = full_roster_exclusion [of ex_state_reserved uniform_stats rnd_zero 0 0 0
      Secondary_default Secondary_default]
  from full b(1,5,6) have k: "PATHFINDING \<in> set (valid_kinds ex_state_full)"
    "LOGISTICS \<in> set (valid_kinds ex_state_full)"
    by (simp_all add: ex_state_full_uniform)
  from full b(1,2,3) have x: "LUCK \<in> set (exclude_skills ex_state_full)" by blast
  from res a have c: "Count ex_state_reserved < 8" by blast
  from a b k x c show ?thesis
    by (simp add: ex_state_full_uniform ex_state_reserved_proposal ex_state_full_proposal)
qed

subsection \<open>What the call writes\<close>

text \<open>
  C10, as amended. \<open>FindSkillsForLevelUp\<close> writes only its two output parameters:
  every object other than \<open>sec1\<close> and \<open>sec2\<close> is the same after the call as before it.
  Hence the state's entry sequence is identical before and after the call whenever
  neither output is an element of the state's own vector. A proposal reaches the state
  only through a later \<open>AddSkill\<close>.
\<close>

theorem FindSkillsForLevelUp_writes_only_outputs:
  "(\<forall>a. a \<noteq> sec1 \<and> a \<noteq> sec2 \<longrightarrow>
      FindSkillsForLevelUp_ref gs rnd this race seedSkill1 seedSkill2 sec1 sec2 h a = h a) \<and>
   (sec1 \<notin> set this \<and> sec2 \<notin> set this \<longrightarrow>
      map (FindSkillsForLevelUp_ref gs rnd this race seedSkill1 seedSkill2 sec1 sec2 h) this
        = map h this)"
proof -
  have frame: "FindSkillsForLevelUp_ref gs rnd this race seedSkill1 seedSkill2 sec1 sec2 h a = h a"
    if "a \<noteq> sec1" "a \<noteq> sec2" for a
    using that unfolding FindSkillsForLevelUp_ref_def Let_def by simp
  have "map (FindSkillsForLevelUp_ref gs rnd this race seedSkill1 seedSkill2 sec1 sec2 h) this
        = map h this" if "sec1 \<notin> set this" "sec2 \<notin> set this"
  proof (rule map_cong [OF refl])
    fix a assume "a \<in> set this"
    with that have "a \<noteq> sec1" "a \<noteq> sec2" by auto
    then show "FindSkillsForLevelUp_ref gs rnd this race seedSkill1 seedSkill2 sec1 sec2 h a = h a"
      by (rule frame)
  qed
  with frame show ?thesis by blast
qed

text \<open>
  For outputs that are two distinct objects outside the vector, the store model
  computes what the value model computes.
\<close>

lemma FindSkillsForLevelUp_ref_value:
  assumes "sec1 \<noteq> sec2" "sec1 \<notin> set this" "sec2 \<notin> set this"
  shows "(FindSkillsForLevelUp_ref gs rnd this race seedSkill1 seedSkill2 sec1 sec2 h sec1,
          FindSkillsForLevelUp_ref gs rnd this race seedSkill1 seedSkill2 sec1 sec2 h sec2)
         = FindSkillsForLevelUp gs rnd (map h this) race seedSkill1 seedSkill2 (h sec1) (h sec2)"
  using assms
  unfolding FindSkillsForLevelUp_ref_def FindSkillsForLevelUp_def Let_def
  by (simp add: map_fun_upd)

text \<open>A store with the state at addresses 0 and 1 and the outputs at 2 and 3.\<close>

lemma ex_store_run:
  "FindSkillsForLevelUp_ref uniform_stats rnd_zero [0, 1] 0 0 0 2 3 ex_store 2
     = Secondary PATHFINDING Level_BASIC"
  "FindSkillsForLevelUp_ref uniform_stats rnd_zero [0, 1] 0 0 0 2 3 ex_store 3
     = Secondary ARCHERY Level_ADVANCED"
  by code_simp+

theorem FindSkillsForLevelUp_writes_only_outputs_witness:
  "(4::nat) \<noteq> 2 \<and> (4::nat) \<noteq> 3 \<and> (2::nat) \<notin> set [0, 1] \<and> (3::nat) \<notin> set [0, 1] \<and>
   FindSkillsForLevelUp_ref uniform_stats rnd_zero [0, 1] 0 0 0 2 3 ex_store 4 = ex_store 4 \<and>
   map (FindSkillsForLevelUp_ref uniform_stats rnd_zero [0, 1] 0 0 0 2 3 ex_store) [0, 1]
     = [Secondary LEADERSHIP Level_EXPERT, Secondary ARCHERY Level_BASIC]"
proof -
  note t = FindSkillsForLevelUp_writes_only_outputs [of 2 3 uniform_stats rnd_zero "[0, 1]" 0 0 0 ex_store]
  from t have "FindSkillsForLevelUp_ref uniform_stats rnd_zero [0, 1] 0 0 0 2 3 ex_store 4 = ex_store 4"
    by simp
  moreover from t have
    "map (FindSkillsForLevelUp_ref uniform_stats rnd_zero [0, 1] 0 0 0 2 3 ex_store) [0, 1]
       = map ex_store [0, 1]"
    by simp
  ultimately show ?thesis by (simp add: ex_store_def)
qed

text \<open>
  C10 as stated fails: the method is const, but nothing keeps a caller from passing an
  element of the state's own vector as an output. With the state's second element
  passed as \<open>sec1\<close>, the entry Archery at Basic is overwritten by the proposal
  Pathfinding at Advanced.
\<close>

theorem output_aliasing_state_element:
  "map ex_store [0, 1] = [Secondary LEADERSHIP Level_EXPERT, Secondary ARCHERY Level_BASIC] \<and>
   map (FindSkillsForLevelUp_ref uniform_stats rnd_zero [0, 1] 0 0 0 1 3 ex_store) [0, 1]
     = [Secondary LEADERSHIP Level_EXPERT, Secondary PATHFINDING Level_ADVANCED]"
  by code_simp


section \<open>Properties of the spell valuation\<close>

subsection \<open>The code's machine arithmetic against the formula\<close>

lemma isDamage_iff:
  "isDamage sp \<longleftrightarrow>
     sp \<in> {ARROW, FIREBALL, FIREBLAST, LIGHTNINGBOLT, COLDRING, DEATHWAVE, HOLYWORD,
           CHAINLIGHTNING, ARMAGEDDON, ELEMENTALSTORM, METEORSHOWER, COLDRAY, HOLYSHOUT,
           DEATHRIPPLE}"
  unfolding isDamage_def Damage_def by auto

lemma unat_word_of_int_32: "unat (word_of_int k :: 32 word) = nat (k mod 2 ^ 32)"
  by (simp add: unat_eq_nat_uint uint_word_of_int)

lemma damage_term:
  "unat (of_nat d * word_of_int p + word_of_int m :: 32 word) = nat ((int d * p + m) mod 2 ^ 32)"
proof -
  have "(of_nat d * word_of_int p + word_of_int m :: 32 word) = word_of_int (int d * p + m)"
    by simp
  then show ?thesis by (simp only: unat_word_of_int_32)
qed

lemma unat_spell_casts:
  "unat (spell_casts spellCost currentSpellPoints) = spec_casts (unat currentSpellPoints) (unat spellCost)"
proof (cases "spellCost = 0")
  case True
  then show ?thesis by (simp add: spell_casts_def spec_casts_def)
next
  case False
  then have pos: "0 < unat spellCost" by (simp add: unat_gt_0)
  have "unat (min 10 (currentSpellPoints div spellCost)) = min 10 (unat (currentSpellPoints div spellCost))"
    by (simp add: min_def word_le_nat_alt)
  with False pos show ?thesis by (simp add: spell_casts_def spec_casts_def unat_div)
qed

lemma amountModifier_spec: "amountModifier casts = spec_amountModifier (unat casts)"
proof -
  have "casts = 1 \<longleftrightarrow> unat casts = 1" by (simp add: word_unat_eq_iff)
  then show ?thesis by (simp add: amountModifier_def spec_amountModifier_def power2_eq_square)
qed

lemma spell_casts_le_10: "unat (spell_casts spellCost currentSpellPoints) \<le> 10"
  by (simp add: unat_spell_casts spec_casts_def)

lemma Spell_spellPoints_None: "Spell_spellPoints sp None = Some (of_nat (spellPoints (spells sp)))"
  by (simp add: Spell_spellPoints_def)

subsection \<open>Summon spells\<close>

text \<open>
  C6. For each of the four summon spells and all values of the other arguments,
  \<open>getStrategicValue\<close> returns the monster strength of the spell times its extra value
  times the spell power; the result is the same for every army strength, every amount
  of current spell points and every school modifier.
\<close>

theorem summon_strategic_value:
  assumes "isSummon sp"
  shows "getStrategicValue GetMonsterStrength sp armyStrength currentSpellPoints spellPower
           schoolSpellModifier
         = Some (GetMonsterStrength sp * real (extraValue (spells sp)) * real_of_int spellPower) \<and>
         getStrategicValue GetMonsterStrength sp armyStrength currentSpellPoints spellPower
           schoolSpellModifier
         = getStrategicValue GetMonsterStrength sp armyStrength' currentSpellPoints' spellPower
             schoolSpellModifier'"
proof -
  have branch: "\<not> isAdventure sp" "\<not> isDamage sp" "\<not> isResurrect sp" "\<not> isMassActions sp"
    "sp \<noteq> BLIND" "sp \<noteq> PARALYZE"
    using assms
    by (auto simp: isSummon_def isAdventure_def isDamage_def Damage_def isResurrect_def
        Resurrect_def isMassActions_def)
  have ev: "unat (ExtraValue sp) = extraValue (spells sp)"
    using assms by (auto simp: isSummon_def ExtraValue_def)
  have "getStrategicValue GetMonsterStrength sp a c spellPower m
        = Some (GetMonsterStrength sp * real (extraValue (spells sp)) * real_of_int spellPower)"
    for a c m
    unfolding getStrategicValue_def Spell_spellPoints_None Let_def
    using branch assms ev by simp
  then show ?thesis by simp
qed

theorem summon_strategic_value_witness:
  "isSummon SUMMONEELEMENT \<and>
   getStrategicValue unit_strength SUMMONEELEMENT 1000 45 7 20 = Some 21 \<and>
   getStrategicValue unit_strength SUMMONEELEMENT 1000 45 7 20
     = getStrategicValue unit_strength SUMMONEELEMENT 5 300 7 80"
  using summon_strategic_value [of SUMMONEELEMENT unit_strength 1000 45 7 20 5 300 80]
  by (auto simp: isSummon_def unit_strength_def)

subsection \<open>Damage spells\<close>

lemma damage_spell_facts:
  assumes "isDamage sp"
  shows "\<not> isAdventure sp" and "Damage sp = of_nat (extraValue (spells sp))"
    and "unat (of_nat (spellPoints (spells sp)) :: 32 word) = spellPoints (spells sp)"
  using assms unfolding isDamage_iff
  by (auto simp: isAdventure_def Damage_def)

lemma getStrategicValue_damage:
  assumes "isDamage sp"
  shows "getStrategicValue GetMonsterStrength sp armyStrength currentSpellPoints spellPower
           schoolSpellModifier
         = Some (spec_amountModifier (spec_casts (unat currentSpellPoints) (spellPoints (spells sp)))
                 * real (nat ((int (extraValue (spells sp)) * spellPower + schoolSpellModifier)
                              mod 2 ^ 32)))"
  unfolding getStrategicValue_def Spell_spellPoints_None Let_def
  using assms damage_spell_facts [OF assms]
  by (simp add: amountModifier_spec unat_spell_casts damage_term)

text \<open>
  C7, as amended. For every damage spell and all inputs, \<open>getStrategicValue\<close> equals
  \<open>amountModifier\<close> times the damage term, with \<open>casts\<close> and \<open>amountModifier\<close> as the
  specification defines them; the damage term is
  \<open>damageAmount * spellPower + schoolSpellModifier\<close> reduced modulo \<open>2^32\<close>, which is
  the plain sum whenever that sum lies between 0 and \<open>2^32 - 1\<close> (as it does for a spell
  power and a modifier that are not negative and of any size a game produces).
\<close>

theorem damage_strategic_value:
  assumes "isDamage sp"
  shows "getStrategicValue GetMonsterStrength sp armyStrength currentSpellPoints spellPower
           schoolSpellModifier
         = Some (spec_amountModifier (spec_casts (unat currentSpellPoints) (spellPoints (spells sp)))
                 * real (nat ((int (extraValue (spells sp)) * spellPower + schoolSpellModifier)
                              mod 2 ^ 32))) \<and>
         (0 \<le> int (extraValue (spells sp)) * spellPower + schoolSpellModifier \<and>
          int (extraValue (spells sp)) * spellPower + schoolSpellModifier < 2 ^ 32 \<longrightarrow>
          getStrategicValue GetMonsterStrength sp armyStrength currentSpellPoints spellPower
            schoolSpellModifier
          = Some (spec_amountModifier (spec_casts (unat currentSpellPoints) (spellPoints (spells sp)))
                  * real_of_int (int (extraValue (spells sp)) * spellPower + schoolSpellModifier)))"
proof (intro conjI impI)
  show "getStrategicValue GetMonsterStrength sp armyStrength currentSpellPoints spellPower
           schoolSpellModifier
         = Some (spec_amountModifier (spec_casts (unat currentSpellPoints) (spellPoints (spells sp)))
                 * real (nat ((int (extraValue (spells sp)) * spellPower + schoolSpellModifier)
                              mod 2 ^ 32)))"
    using assms by (rule getStrategicValue_damage)
next
  let ?x = "int (extraValue (spells sp)) * spellPower + schoolSpellModifier"
  assume "0 \<le> ?x \<and> ?x < 2 ^ 32"
  then have "real (nat (?x mod 2 ^ 32)) = real_of_int ?x" by simp
  then show "getStrategicValue GetMonsterStrength sp armyStrength currentSpellPoints spellPower
            schoolSpellModifier
          = Some (spec_amountModifier (spec_casts (unat currentSpellPoints) (spellPoints (spells sp)))
                  * real_of_int ?x)"
    using getStrategicValue_damage [OF assms, of GetMonsterStrength armyStrength currentSpellPoints
        spellPower schoolSpellModifier]
    by simp
qed

text \<open>
  The benchmark of the source comment: Lightning Bolt with spell power 20 and 200 spell
  points (knowledge 20) is worth 2500.
\<close>

theorem damage_strategic_value_witness:
  "isDamage LIGHTNINGBOLT \<and>
   getStrategicValue unit_strength LIGHTNINGBOLT 0 200 20 0 = Some 2500"
  using damage_strategic_value [of LIGHTNINGBOLT unit_strength 0 200 20 0]
  by (simp add: isDamage_iff spec_casts_def spec_amountModifier_def)

text \<open>
  C7 as stated fails for a negative spell power: Fireball with one cast available and
  spell power -1 is valued at 4294967286, where the formula gives -10.
\<close>

lemma fireball_negative_power: "getStrategicValue unit_strength FIREBALL 0 9 (- 1) 0 = Some 4294967286"
  using getStrategicValue_damage [of FIREBALL unit_strength 0 9 "- 1" 0]
  by (simp add: isDamage_iff spec_casts_def spec_amountModifier_def)

theorem damage_strategic_value_negative_power:
  "isDamage FIREBALL \<and>
   getStrategicValue unit_strength FIREBALL 0 9 (- 1) 0 = Some 4294967286 \<and>
   spec_amountModifier (spec_casts 9 (spellPoints (spells FIREBALL)))
     * real_of_int (int (extraValue (spells FIREBALL)) * (- 1) + 0) = - 10"
  using fireball_negative_power by (simp add: isDamage_iff spec_casts_def spec_amountModifier_def)

subsection \<open>Diminishing returns\<close>

lemma spec_amountModifier_mono_1_4:
  assumes "1 \<le> m" "m \<le> n" "n \<le> 4"
  shows "spec_amountModifier m \<le> spec_amountModifier n"
proof -
  from assms have "m = 1 \<or> m = 2 \<or> m = 3 \<or> m = 4" "n = 1 \<or> n = 2 \<or> n = 3 \<or> n = 4"
    by arith+
  with assms(2) show ?thesis
    by (elim disjE) (simp_all add: spec_amountModifier_def power2_eq_square)
qed

text \<open>
  C8, as amended. \<open>amountModifier\<close> is non-decreasing for \<open>casts\<close> from 1 to 4. For
  a damage spell with fixed spell power and school modifier, the value with 10 casts is
  at most 5 times the value with 2 casts, and strictly less whenever the damage term
  (\<open>damageAmount * spellPower + schoolSpellModifier\<close> modulo \<open>2^32\<close>) is not 0.
\<close>

theorem diminishing_returns:
  "(\<forall>c1 c2. 1 \<le> c1 \<and> c1 \<le> c2 \<and> c2 \<le> 4 \<longrightarrow> amountModifier c1 \<le> amountModifier c2) \<and>
   (isDamage sp \<and>
    spell_casts (of_nat (spellPoints (spells sp))) points10 = 10 \<and>
    spell_casts (of_nat (spellPoints (spells sp))) points2 = 2 \<longrightarrow>
    (\<exists>v10 v2.
       getStrategicValue GetMonsterStrength sp armyStrength points10 spellPower schoolSpellModifier
         = Some v10 \<and>
       getStrategicValue GetMonsterStrength sp armyStrength points2 spellPower schoolSpellModifier
         = Some v2 \<and>
       v10 \<le> 5 * v2 \<and>
       ((int (extraValue (spells sp)) * spellPower + schoolSpellModifier) mod 2 ^ 32 \<noteq> 0
          \<longrightarrow> v10 < 5 * v2)))"
proof (intro conjI allI impI)
  fix c1 c2 :: "32 word"
  assume "1 \<le> c1 \<and> c1 \<le> c2 \<and> c2 \<le> 4"
  then have "1 \<le> unat c1" "unat c1 \<le> unat c2" "unat c2 \<le> 4"
    by (simp_all add: word_le_nat_alt)
  then show "amountModifier c1 \<le> amountModifier c2"
    unfolding amountModifier_spec by (rule spec_amountModifier_mono_1_4)
next
  let ?cost = "of_nat (spellPoints (spells sp)) :: 32 word"
  let ?x = "real (nat ((int (extraValue (spells sp)) * spellPower + schoolSpellModifier) mod 2 ^ 32))"
  assume h: "isDamage sp \<and> spell_casts ?cost points10 = 10 \<and> spell_casts ?cost points2 = 2"
  then have d: "isDamage sp" by simp
  note f = damage_spell_facts [OF d]
  from h have "unat (spell_casts ?cost points10) = 10" "unat (spell_casts ?cost points2) = 2"
    by simp_all
  then have c: "spec_casts (unat points10) (spellPoints (spells sp)) = 10"
    "spec_casts (unat points2) (spellPoints (spells sp)) = 2"
    by (simp_all add: unat_spell_casts f(3))
  have v10: "getStrategicValue GetMonsterStrength sp armyStrength points10 spellPower
               schoolSpellModifier = Some (5 * ?x)"
    using getStrategicValue_damage [OF d, of GetMonsterStrength armyStrength points10 spellPower
        schoolSpellModifier] c(1)
    by (simp add: spec_amountModifier_def)
  have v2: "getStrategicValue GetMonsterStrength sp armyStrength points2 spellPower
               schoolSpellModifier = Some (9 / 5 * ?x)"
    using getStrategicValue_damage [OF d, of GetMonsterStrength armyStrength points2 spellPower
        schoolSpellModifier] c(2)
    by (simp add: spec_amountModifier_def)
  have le: "5 * ?x \<le> 5 * (9 / 5 * ?x)" by simp
  have lt: "5 * ?x < 5 * (9 / 5 * ?x)"
    if "(int (extraValue (spells sp)) * spellPower + schoolSpellModifier) mod 2 ^ 32 \<noteq> 0"
  proof -
    have "0 \<le> (int (extraValue (spells sp)) * spellPower + schoolSpellModifier) mod 2 ^ 32"
      by simp
    with that have "0 < ?x" by simp
    then show ?thesis by simp
  qed
  show "\<exists>v10 v2.
       getStrategicValue GetMonsterStrength sp armyStrength points10 spellPower schoolSpellModifier
         = Some v10 \<and>
       getStrategicValue GetMonsterStrength sp armyStrength points2 spellPower schoolSpellModifier
         = Some v2 \<and>
       v10 \<le> 5 * v2 \<and>
       ((int (extraValue (spells sp)) * spellPower + schoolSpellModifier) mod 2 ^ 32 \<noteq> 0
          \<longrightarrow> v10 < 5 * v2)"
  proof (intro exI conjI impI)
    show "getStrategicValue GetMonsterStrength sp armyStrength points10 spellPower
            schoolSpellModifier = Some (5 * ?x)"
      by (rule v10)
    show "getStrategicValue GetMonsterStrength sp armyStrength points2 spellPower
            schoolSpellModifier = Some (9 / 5 * ?x)"
      by (rule v2)
    show "5 * ?x \<le> 5 * (9 / 5 * ?x)" by (rule le)
    assume "(int (extraValue (spells sp)) * spellPower + schoolSpellModifier) mod 2 ^ 32 \<noteq> 0"
    then show "5 * ?x < 5 * (9 / 5 * ?x)" by (rule lt)
  qed
qed

lemma fireball_casts: "spell_casts 9 90 = 10" "spell_casts 9 18 = 2"
  by (simp_all add: spell_casts_def word_unat_eq_iff unat_div)

theorem diminishing_returns_witness:
  "(1::32 word) \<le> 2 \<and> (2::32 word) \<le> 3 \<and> (3::32 word) \<le> 4 \<and>
   amountModifier 2 \<le> amountModifier 3 \<and>
   isDamage FIREBALL \<and> spell_casts (of_nat (spellPoints (spells FIREBALL))) 90 = 10 \<and>
   spell_casts (of_nat (spellPoints (spells FIREBALL))) 18 = 2 \<and>
   (int (extraValue (spells FIREBALL)) * 20 + 0) mod 2 ^ 32 \<noteq> 0 \<and>
   getStrategicValue unit_strength FIREBALL 0 90 20 0 = Some 1000 \<and>
   getStrategicValue unit_strength FIREBALL 0 18 20 0 = Some 360 \<and>
   (1000::real) < 5 * 360"
proof -
  have w: "(1::32 word) \<le> 2" "(2::32 word) \<le> 3" "(3::32 word) \<le> 4" by simp_all
  note t = diminishing_returns [of FIREBALL 90 18 unit_strength 0 20 0]
  from t have "\<forall>c1 c2. 1 \<le> c1 \<and> c1 \<le> c2 \<and> c2 \<le> 4 \<longrightarrow> amountModifier c1 \<le> amountModifier c2"
    by (rule conjunct1)
  with w have m: "amountModifier 2 \<le> amountModifier 3" by blast
  have d: "isDamage FIREBALL \<and> spell_casts (of_nat (spellPoints (spells FIREBALL))) 90 = 10 \<and>
           spell_casts (of_nat (spellPoints (spells FIREBALL))) 18 = 2"
    by (simp add: isDamage_iff fireball_casts)
  have nz: "(int (extraValue (spells FIREBALL)) * 20 + 0) mod 2 ^ 32 \<noteq> 0" by simp
  have v: "getStrategicValue unit_strength FIREBALL 0 90 20 0 = Some 1000"
    "getStrategicValue unit_strength FIREBALL 0 18 20 0 = Some 360"
    using getStrategicValue_damage [of FIREBALL unit_strength 0 90 20 0]
      getStrategicValue_damage [of FIREBALL unit_strength 0 18 20 0]
    by (simp_all add: isDamage_iff spec_casts_def spec_amountModifier_def)
  from t d nz obtain v10 v2 where
    "getStrategicValue unit_strength FIREBALL 0 90 20 0 = Some v10"
    "getStrategicValue unit_strength FIREBALL 0 18 20 0 = Some v2" "v10 < 5 * v2"
    by blast
  with v have lt: "(1000::real) < 5 * 360" by simp
  from w m d nz v lt show ?thesis by blast
qed

text \<open>
  C8 as stated fails when the damage term is 0: Fireball with spell power 0 and no
  school modifier is worth 0 with 10 casts and 0 with 2 casts, and 0 is not less than
  5 times 0.
\<close>

theorem diminishing_returns_zero_damage:
  "isDamage FIREBALL \<and>
   spell_casts (of_nat (spellPoints (spells FIREBALL))) 90 = 10 \<and>
   spell_casts (of_nat (spellPoints (spells FIREBALL))) 18 = 2 \<and>
   getStrategicValue unit_strength FIREBALL 0 90 0 0 = Some 0 \<and>
   getStrategicValue unit_strength FIREBALL 0 18 0 0 = Some 0 \<and>
   \<not> ((0::real) < 5 * 0)"
  using getStrategicValue_damage [of FIREBALL unit_strength 0 90 0 0]
    getStrategicValue_damage [of FIREBALL unit_strength 0 18 0 0]
  by (simp add: isDamage_iff fireball_casts)


section \<open>Properties of the spell cost\<close>

text \<open>
  C1. The cost is not floored at 1 for every spell. For a spell without an artifact
  bonus type the function returns right after the school discount is subtracted, before
  the check \<open>spellCost < 1\<close> that the other path ends with. View Mines costs 1 spell
  point and its discount at Basic level is 1: a caster with Basic Earth Magic and no
  artifact at all (so every percentage is within range) casts it for 0 spell points.
\<close>

theorem spellPoints_ViewMines_zero:
  "getTotalArtifactMultipliedPercent hero_earth_basic (bonus_type VIEWMINES) = [] \<and>
   GetSpellCostReduction hero_earth_basic VIEWMINES = 1 \<and>
   Spell_spellPoints VIEWMINES (Some hero_earth_basic) = Some 0"
  by (simp add: Spell_spellPoints_def bonus_type_def isMindInfluence_def GetSpellCostReduction_def
      hero_earth_basic_def earth_basic_def no_percent_def)

text \<open>
  On the other path the floor holds: a spell with an artifact bonus type never costs
  less than 1, whatever the discounts. Bless (5 points) with a single 50 percent
  reduction costs 2.
\<close>

lemma spellPoints_le_30: "spellPoints (spells sp) \<le> 30"
  by (cases sp) simp_all

lemma sdiv_100_le:
  assumes "c \<le> b" "0 \<le> b" "0 \<le> v" "v \<le> 100"
  shows "c * (100 - v) sdiv 100 \<le> (b::int)"
proof (cases "0 \<le> c")
  case True
  with assms have nn: "0 \<le> c * (100 - v)" by simp
  then have "c * (100 - v) sdiv 100 = c * (100 - v) div 100"
    by (simp add: signed_divide_int_def sgn_if)
  also have "\<dots> \<le> c * 100 div 100"
    using True assms by (intro zdiv_mono1 mult_left_mono) simp_all
  also have "\<dots> = c" by simp
  finally show ?thesis using assms(1) by simp
next
  case False
  with assms have "c * (100 - v) \<le> 0" by (simp add: mult_le_0_iff)
  then have "c * (100 - v) sdiv 100 \<le> 0"
    by (auto simp: signed_divide_int_def sgn_if div_nonneg_neg_le0)
  with assms(2) show ?thesis by simp
qed

lemma reduce_by_percent_le:
  "reduce_by_percent vs c = Some c' \<Longrightarrow> c \<le> b \<Longrightarrow> 0 \<le> b \<Longrightarrow> c' \<le> b"
proof (induction vs arbitrary: c)
  case Nil
  then show ?case by simp
next
  case (Cons v vs)
  from Cons.prems(1) have v: "0 \<le> v" "v \<le> 100"
    and r: "reduce_by_percent vs (c * (100 - v) sdiv 100) = Some c'"
    by (auto split: if_splits)
  from Cons.prems(2,3) v have "c * (100 - v) sdiv 100 \<le> b" by (rule sdiv_100_le)
  from Cons.IH [OF r this Cons.prems(3)] show ?case .
qed

lemma reduce_by_percent_in_range:
  "reduce_by_percent vs c = Some c' \<Longrightarrow> \<forall>v\<in>set vs. 0 \<le> v \<and> v \<le> 100"
  by (induction vs arbitrary: c) (auto split: if_splits)

lemma reduce_by_percent_total:
  "\<forall>v\<in>set vs. 0 \<le> v \<and> v \<le> 100 \<Longrightarrow> \<exists>c'. reduce_by_percent vs c = Some c'"
  by (induction vs arbitrary: c) auto

lemma spellPoints_floor_with_bonus_type:
  assumes "bonus_type sp \<noteq> ArtifactBonusType_NONE"
    and "Spell_spellPoints sp (Some hero) = Some cost"
  shows "1 \<le> cost"
proof -
  let ?c = "int (spellPoints (spells sp)) - int (GetSpellCostReduction hero sp)"
  from assms obtain c' where
    r: "reduce_by_percent (getTotalArtifactMultipliedPercent hero (bonus_type sp)) ?c = Some c'"
    and cost: "cost = (if c' < 1 then 1 else word_of_int c')"
    by (auto simp: Spell_spellPoints_def Let_def split: option.splits if_splits)
  have "?c \<le> 30" using spellPoints_le_30 [of sp] by simp
  with r have le: "c' \<le> 30" by (rule reduce_by_percent_le) simp
  show ?thesis
  proof (cases "c' < 1")
    case True
    with cost show ?thesis by simp
  next
    case False
    with le have "unat (word_of_int c' :: 32 word) = nat c'"
      by (simp add: unat_word_of_int_32)
    with False cost show ?thesis by (simp add: word_le_nat_alt)
  qed
qed

lemma bless_half: "Spell_spellPoints BLESS (Some hero_necromancer) = Some 2"
  by (simp add: Spell_spellPoints_def bonus_type_def isMindInfluence_def GetSpellCostReduction_def
      hero_necromancer_def earth_basic_def half_percent_def)

section \<open>Properties of the necromancy bonus\<close>

lemma unat_min: "unat (min a b) = min (unat a) (unat b)"
  by (simp add: min_def word_le_nat_alt)

lemma GetNecromancyBonus_le_7: "unat (GetNecromancyBonus world hero) \<le> 7"
  by (simp add: GetNecromancyBonus_def Let_def unat_min)

text \<open>
  C9, as amended. The necromancy bonus is the smaller of 7 and the number of shrines
  plus 1 for the bonus artifact, the sum reduced modulo \<open>2^32\<close>; the necromancy percent
  is the smaller of 100 and the hero's Necromancy skill value plus 10 times the bonus,
  the sum reduced modulo \<open>2^32\<close> (both sums are computed in \<open>uint32_t\<close>). The sums are
  the plain sums whenever the shrine count is below \<open>2^32 - 1\<close> and the skill value
  below \<open>2^32 - 70\<close>.
\<close>

theorem necromancy_bonus_and_percent:
  "unat (GetNecromancyBonus world hero)
     = min 7 ((unat (GetCountNecromancyShrineBuild world (GetColor hero))
               + (if isArtifactBonusPresent hero NECROMANCY_SKILL then 1 else 0)) mod 2 ^ 32) \<and>
   unat (GetNecromancyPercent world hero)
     = min 100 ((unat (GetSecondaryValues hero NECROMANCY)
                 + 10 * unat (GetNecromancyBonus world hero)) mod 2 ^ 32) \<and>
   (unat (GetCountNecromancyShrineBuild world (GetColor hero)) < 2 ^ 32 - 1 \<longrightarrow>
      unat (GetNecromancyBonus world hero)
        = min 7 (unat (GetCountNecromancyShrineBuild world (GetColor hero))
                 + (if isArtifactBonusPresent hero NECROMANCY_SKILL then 1 else 0))) \<and>
   (unat (GetSecondaryValues hero NECROMANCY) < 2 ^ 32 - 70 \<longrightarrow>
      unat (GetNecromancyPercent world hero)
        = min 100 (unat (GetSecondaryValues hero NECROMANCY)
                   + 10 * unat (GetNecromancyBonus world hero)))"
proof -
  let ?s = "GetCountNecromancyShrineBuild world (GetColor hero)"
  let ?a = "(if isArtifactBonusPresent hero NECROMANCY_SKILL then 1 else 0) :: 32 word"
  let ?an = "(if isArtifactBonusPresent hero NECROMANCY_SKILL then 1 else 0) :: nat"
  let ?v = "GetSecondaryValues hero NECROMANCY"
  let ?b = "GetNecromancyBonus world hero"
  have ua: "unat ?a = ?an" by simp
  have "unat (?s + ?a) = (unat ?s + unat ?a) mod 2 ^ LENGTH(32)"
    by (rule unat_word_ariths(1))
  then have sum: "unat (?s + ?a) = (unat ?s + ?an) mod 2 ^ 32" by (simp only: ua) simp
  have bonus: "unat ?b = min 7 ((unat ?s + ?an) mod 2 ^ 32)"
    using sum by (simp add: GetNecromancyBonus_def Let_def unat_min)
  have b: "unat ?b \<le> 7" by (rule GetNecromancyBonus_le_7)
  then have "unat (10 :: 32 word) * unat ?b < 2 ^ LENGTH(32)" by simp
  then have m: "unat (10 * ?b) = 10 * unat ?b" by (simp only: unat_mult_lem) simp
  have "unat (?v + 10 * ?b) = (unat ?v + unat (10 * ?b)) mod 2 ^ LENGTH(32)"
    by (rule unat_word_ariths(1))
  then have psum: "unat (?v + 10 * ?b) = (unat ?v + 10 * unat ?b) mod 2 ^ 32"
    by (simp only: m) simp
  have percent: "unat (GetNecromancyPercent world hero)
                 = min 100 ((unat ?v + 10 * unat ?b) mod 2 ^ 32)"
    using psum by (simp add: GetNecromancyPercent_def Let_def unat_min min.commute)
  have bonus': "unat ?b = min 7 (unat ?s + ?an)" if "unat ?s < 2 ^ 32 - 1"
  proof -
    from that have "unat ?s + ?an < 2 ^ 32" by simp
    then have "(unat ?s + ?an) mod 2 ^ 32 = unat ?s + ?an" by (rule mod_less)
    with bonus show ?thesis by simp
  qed
  have percent': "unat (GetNecromancyPercent world hero) = min 100 (unat ?v + 10 * unat ?b)"
    if "unat ?v < 2 ^ 32 - 70"
  proof -
    from that b have "unat ?v + 10 * unat ?b < 2 ^ 32" by simp
    then have "(unat ?v + 10 * unat ?b) mod 2 ^ 32 = unat ?v + 10 * unat ?b" by (rule mod_less)
    with percent show ?thesis by simp
  qed
  from bonus percent bonus' percent' show ?thesis by blast
qed

text \<open>Three shrines, the artifact and a skill value of 30: bonus 4, 70 percent.\<close>

theorem necromancy_bonus_and_percent_witness:
  "unat (GetCountNecromancyShrineBuild world_three_shrines (GetColor hero_necromancer)) < 2 ^ 32 - 1 \<and>
   unat (GetSecondaryValues hero_necromancer NECROMANCY) < 2 ^ 32 - 70 \<and>
   GetNecromancyBonus world_three_shrines hero_necromancer = 4 \<and>
   GetNecromancyPercent world_three_shrines hero_necromancer = 70"
  using necromancy_bonus_and_percent [of world_three_shrines hero_necromancer]
  by (simp add: world_three_shrines_def three_shrines_def hero_necromancer_def
      necromancy_artifact_def necromancy_30_def GetNecromancyBonus_def word_unat_eq_iff)

text \<open>
  C9 as stated fails where the sum wraps around: with 4294967295 shrines and the
  artifact the bonus is 0, not 7, and the percent is 30.
\<close>

theorem necromancy_bonus_wraps:
  "GetCountNecromancyShrineBuild world_max_shrines (GetColor hero_necromancer) = 4294967295 \<and>
   isArtifactBonusPresent hero_necromancer NECROMANCY_SKILL \<and>
   GetSecondaryValues hero_necromancer NECROMANCY = 30 \<and>
   GetNecromancyBonus world_max_shrines hero_necromancer = 0 \<and>
   GetNecromancyPercent world_max_shrines hero_necromancer = 30 \<and>
   min 7 (4294967295 + 1 :: nat) = 7"
  by (simp add: world_max_shrines_def max_shrines_def hero_necromancer_def
      necromancy_artifact_def necromancy_30_def GetNecromancyBonus_def GetNecromancyPercent_def)

end
